theory Spec2Isabelle
  imports Main
begin

section \<open>The Ceph RBD driver helpers: data model\<close>

text \<open>
  The functions embedded here are those of the \<open>package drivers\<close> part of
  \<open>src/internal/server/apparmor/rsync.go\<close> (methods of \<open>*ceph\<close>). Every backend
  interaction of that code is a call of \<open>subprocess.RunCommand\<close>; the model records each
  command issued and takes the answer from an oracle over the commands issued so far.
\<close>

type_synonym cmd = "string list"

text \<open>
  Go errors as values. \<open>ExitError\<close> is a \<open>subprocess.RunError\<close> that wraps an
  \<open>*exec.ExitError\<close> with the given exit code, \<open>RunFailure\<close> a \<open>RunError\<close> with any other
  cause, \<open>StatusError\<close> an \<open>api.StatusErrorf\<close> value. The remaining constructors stand for
  the \<open>fmt.Errorf\<close> values of the source, one per message:
  \<open>PoolDelimiterNotFound\<close> is "Pool delimiter not found",
  \<open>UnrecognizedParent p\<close> is "Unrecognized parent: %q",
  \<open>UnexpectedParsingError\<close> is "Unexpected parsing error",
  \<open>NoNameProperty\<close> is "No \"name\" property found",
  \<open>NameNotString\<close> is "\"name\" property did not have string type",
  \<open>FailedToDetectDevPath\<close> is "Failed to detect mapped device path",
  \<open>NotMapped n\<close> is "Volume %q not mapped to an RBD device".
  \<open>UnmarshalError\<close> is an error of \<open>json.Unmarshal\<close>, \<open>ErrNotExist\<close> a file-system error
  for which \<open>errors.Is(err, fs.ErrNotExist)\<close> holds, \<open>FsError\<close> any other file-system error,
  \<open>Panic\<close> a run-time panic (an index out of range),
  \<open>ImportDiffProblem errs output\<close> the error "Problem with ceph import-diff: (%v) %s" of
  \<open>receiveVolume\<close> with the errors it joins and the text read from the process's stderr.
\<close>

datatype error =
    ExitError cmd int
  | RunFailure cmd
  | StatusError nat string
  | PoolDelimiterNotFound
  | UnrecognizedParent string
  | UnexpectedParsingError
  | NoNameProperty
  | NameNotString
  | FailedToDetectDevPath
  | NotMapped string
  | UnmarshalError
  | ErrNotExist
  | FsError string
  | Panic
  | ImportDiffProblem "error list" string

text \<open>\<open>response.IsNotFoundError\<close>: the error is a status error with code 404.\<close>

fun IsNotFoundError :: "error \<Rightarrow> bool" where
  "IsNotFoundError (StatusError code msg) = (code = 404)"
| "IsNotFoundError _ = False"

datatype ContentType = ContentTypeFS | ContentTypeBlock | ContentTypeISO

text \<open>
  Modelled from the spec: the declarations of \<open>Volume\<close>, \<open>VolumeType\<close>, \<open>ContentType\<close>
  and \<open>NewVolume\<close> are not part of the excerpt. The fields are those that the excerpt
  reads and writes; the four volume types are the type prefixes that the spec names.
  \<open>VolumeType\<close> is a string type in the source (\<open>VolumeType(cloneType)\<close> converts any
  string).
\<close>

type_synonym VolumeType = string

definition VolumeTypeContainer :: VolumeType where "VolumeTypeContainer = ''container''"
definition VolumeTypeVM :: VolumeType where "VolumeTypeVM = ''virtual-machine''"
definition VolumeTypeImage :: VolumeType where "VolumeTypeImage = ''image''"
definition VolumeTypeCustom :: VolumeType where "VolumeTypeCustom = ''custom''"

record Volume =
  pool :: string
  volType :: VolumeType
  contentType :: ContentType
  name :: string
  config :: "(string \<times> string) list"
  poolConfig :: "(string \<times> string) list"
  isDeleted :: bool

text \<open>\<open>NewVolume\<close> builds a live (not deleted) volume from its arguments.\<close>

definition NewVolume ::
  "string \<Rightarrow> VolumeType \<Rightarrow> ContentType \<Rightarrow> string \<Rightarrow> (string \<times> string) list \<Rightarrow>
   (string \<times> string) list \<Rightarrow> Volume" where
  "NewVolume poolName vt ct volName cfg pcfg =
     \<lparr>pool = poolName, volType = vt, contentType = ct, name = volName, config = cfg,
      poolConfig = pcfg, isDeleted = False\<rparr>"

text \<open>
  The driver struct: its pool name and its configuration. A Go \<open>map[string]string\<close> read
  at a missing key gives the empty string, so the configuration is a total function.
\<close>

record ceph =
  dname :: string
  dconfig :: "string \<Rightarrow> string"

text \<open>
  What the excerpt uses but does not define. \<open>respond\<close> is the backend: the outcome of a
  command given the commands issued before it, which is its standard output (\<open>Stdout\<close>),
  an exit with an error code (\<open>Exit\<close>), or a failure to run it at all (\<open>NoExit\<close>). \<open>new_uuid\<close> is \<open>uuid.New().String()\<close>, indexed
  by the number of identifiers drawn so far. \<open>image_name\<close> is \<open>CephGetRBDImageName\<close>,
  \<open>is_snapshot\<close> is \<open>Volume.IsSnapshot\<close>, \<open>unmarshal\<close> is \<open>json.Unmarshal\<close> into
  \<open>[]map[string]any\<close>, \<open>read_dir\<close> and \<open>read_file\<close> are \<open>os.ReadDir\<close> and \<open>os.ReadFile\<close>.
\<close>

datatype outcome = Stdout string | Exit int | NoExit

datatype json = JString string | JOther

record extern =
  respond :: "cmd list \<Rightarrow> cmd \<Rightarrow> outcome"
  new_uuid :: "nat \<Rightarrow> string"
  image_name :: "Volume \<Rightarrow> string \<Rightarrow> bool \<Rightarrow> string"
  is_snapshot :: "Volume \<Rightarrow> bool"
  unmarshal :: "string \<Rightarrow> (string \<times> json) list list option"
  read_dir :: "string \<Rightarrow> error + (string \<times> bool) list"
  read_file :: "string \<Rightarrow> error + string"

record world =
  issued :: "cmd list"
  uuids :: nat

definition RunCommand :: "extern \<Rightarrow> cmd \<Rightarrow> world \<Rightarrow> (error + string) \<times> world" where
  "RunCommand X c w =
     ((case respond X (issued w) c of
         Stdout out \<Rightarrow> Inr out
       | Exit code \<Rightarrow> Inl (ExitError c code)
       | NoExit \<Rightarrow> Inl (RunFailure c)),
      w\<lparr>issued := issued w @ [c]\<rparr>)"

definition uuid_New :: "extern \<Rightarrow> world \<Rightarrow> string \<times> world" where
  "uuid_New X w = (new_uuid X (uuids w), w\<lparr>uuids := Suc (uuids w)\<rparr>)"

definition getRBDVolumeName :: "extern \<Rightarrow> ceph \<Rightarrow> Volume \<Rightarrow> string \<Rightarrow> bool \<Rightarrow> string" where
  "getRBDVolumeName X d vol snapName withPoolName =
     (let out = image_name X vol snapName (isDeleted vol)
      in if withPoolName then dconfig d ''ceph.osd.pool_name'' @ ''/'' @ out else out)"

section \<open>Unmapping\<close>

definition unmap_cmd :: "ceph \<Rightarrow> string \<Rightarrow> cmd" where
  "unmap_cmd d rbdVol =
     [''rbd'', ''--id'', dconfig d ''ceph.user.name'',
      ''--cluster'', dconfig d ''ceph.cluster_name'',
      ''--pool'', dconfig d ''ceph.osd.pool_name'', ''unmap'', rbdVol]"

text \<open>
  \<open>rbdUnmapVolume\<close> from its label \<open>again\<close>: one unit of fuel per command, since with
  \<open>unmapUntilEINVAL\<close> the loop runs for as long as the backend answers with success. The
  one-second sleep and the debug log are not modelled.
\<close>

fun rbdUnmapVolume_again ::
  "nat \<Rightarrow> extern \<Rightarrow> ceph \<Rightarrow> string \<Rightarrow> bool \<Rightarrow> int \<Rightarrow> world \<Rightarrow> (error option \<times> world) option" where
  "rbdUnmapVolume_again 0 X d rbdVol unmapUntilEINVAL busyCount w = None"
| "rbdUnmapVolume_again (Suc fuel) X d rbdVol unmapUntilEINVAL busyCount w =
     (case RunCommand X (unmap_cmd d rbdVol) w of
        (Inl err, w1) \<Rightarrow>
          (case err of
             ExitError c code \<Rightarrow>
               if code = 22 then Some (None, w1)
               else if code = 16 then
                 (if busyCount + 1 = 10 then Some (Some err, w1)
                  else rbdUnmapVolume_again fuel X d rbdVol unmapUntilEINVAL (busyCount + 1) w1)
               else Some (Some err, w1)
           | _ \<Rightarrow> Some (Some err, w1))
      | (Inr out, w1) \<Rightarrow>
          if unmapUntilEINVAL
          then rbdUnmapVolume_again fuel X d rbdVol unmapUntilEINVAL busyCount w1
          else Some (None, w1))"

definition rbdUnmapVolume ::
  "nat \<Rightarrow> extern \<Rightarrow> ceph \<Rightarrow> Volume \<Rightarrow> bool \<Rightarrow> world \<Rightarrow> (error option \<times> world) option" where
  "rbdUnmapVolume fuel X d vol unmapUntilEINVAL w =
     rbdUnmapVolume_again fuel X d (getRBDVolumeName X d vol '''' False) unmapUntilEINVAL 0 w"

text \<open>
  \<open>answers X h c rs\<close>: after the commands \<open>h\<close>, the backend answers the command \<open>c\<close>,
  issued again and again, with the outcomes \<open>rs\<close> in this order.
\<close>

fun answers :: "extern \<Rightarrow> cmd list \<Rightarrow> cmd \<Rightarrow> outcome list \<Rightarrow> bool" where
  "answers X h c [] = True"
| "answers X h c (r # rs) = (respond X h c = r \<and> answers X (h @ [c]) c rs)"

definition unmap_of :: "extern \<Rightarrow> ceph \<Rightarrow> Volume \<Rightarrow> cmd" where
  "unmap_of X d vol = unmap_cmd d (getRBDVolumeName X d vol '''' False)"

section \<open>Go string functions\<close>

text \<open>
  Go strings are byte sequences and so are the strings here. \<open>split_first sep s\<close> cuts \<open>s\<close>
  at the first occurrence of \<open>sep\<close>; \<open>SplitN2 sep s\<close> is \<open>strings.SplitN(s, sep, 2)\<close> and
  \<open>Split c s\<close> is \<open>strings.Split(s, sep)\<close> for a separator of the single byte \<open>c\<close>.
\<close>

definition HasPrefix :: "string \<Rightarrow> string \<Rightarrow> bool" where
  "HasPrefix s p = (take (length p) s = p)"

definition HasSuffix :: "string \<Rightarrow> string \<Rightarrow> bool" where
  "HasSuffix s p = (length p \<le> length s \<and> drop (length s - length p) s = p)"

definition TrimPrefix :: "string \<Rightarrow> string \<Rightarrow> string" where
  "TrimPrefix s p = (if HasPrefix s p then drop (length p) s else s)"

definition TrimSuffix :: "string \<Rightarrow> string \<Rightarrow> string" where
  "TrimSuffix s p = (if HasSuffix s p then take (length s - length p) s else s)"

fun split_first :: "string \<Rightarrow> string \<Rightarrow> (string \<times> string) option" where
  "split_first sep [] = (if sep = [] then Some ([], []) else None)"
| "split_first sep (c # cs) =
     (if HasPrefix (c # cs) sep then Some ([], drop (length sep) (c # cs))
      else (case split_first sep cs of
              None \<Rightarrow> None
            | Some (a, b) \<Rightarrow> Some (c # a, b)))"

definition Contains :: "string \<Rightarrow> string \<Rightarrow> bool" where
  "Contains s sub = (split_first sub s \<noteq> None)"

definition SplitN2 :: "string \<Rightarrow> string \<Rightarrow> string list" where
  "SplitN2 sep s = (case split_first sep s of None \<Rightarrow> [s] | Some (a, b) \<Rightarrow> [a, b])"

fun Split :: "char \<Rightarrow> string \<Rightarrow> string list" where
  "Split c [] = [[]]"
| "Split c (x # xs) =
     (if x = c then [] # Split c xs
      else (case Split c xs of
              [] \<Rightarrow> [[x]]
            | y # ys \<Rightarrow> (x # y) # ys))"

text \<open>
  White space as \<open>strings.TrimSpace\<close> and \<open>strings.Fields\<close> see it on ASCII input: tab,
  line feed, vertical tab, form feed, carriage return and space.
\<close>

definition isSpace :: "char \<Rightarrow> bool" where
  "isSpace c = (c \<in> set [CHR 0x09, CHR 0x0A, CHR 0x0B, CHR 0x0C, CHR 0x0D, CHR '' ''])"

definition TrimSpace :: "string \<Rightarrow> string" where
  "TrimSpace s = rev (dropWhile isSpace (rev (dropWhile isSpace s)))"

fun Fields_from :: "string \<Rightarrow> string \<Rightarrow> string list" where
  "Fields_from cur [] = (if cur = [] then [] else [cur])"
| "Fields_from cur (c # cs) =
     (if isSpace c then (if cur = [] then Fields_from [] cs else cur # Fields_from [] cs)
      else Fields_from (cur @ [c]) cs)"

definition Fields :: "string \<Rightarrow> string list" where
  "Fields s = Fields_from [] s"

section \<open>Decoding backend names\<close>

text \<open>
  The block "Split snapshot name" that each branch of \<open>parseParent\<close> repeats: the snapshot
  name is what follows the last \<open>@\<close>, and the name is what precedes it.
\<close>

definition split_snapshot :: "string \<Rightarrow> string \<times> string" where
  "split_snapshot parentName =
     (let s = Split (CHR ''@'') parentName
      in if length s > 1
         then (let snapName = last s in (TrimSuffix parentName (''@'' @ snapName), snapName))
         else (parentName, ''''))"

text \<open>\<open>strings.SplitN(name, prefix, 2)[1]\<close>, which panics when the prefix does not occur.\<close>

definition remove_prefix :: "string \<Rightarrow> string \<Rightarrow> error + string" where
  "remove_prefix prefix nm =
     (case SplitN2 prefix nm of [a, b] \<Rightarrow> Inr b | _ \<Rightarrow> Inl Panic)"

definition parseParent :: "string \<Rightarrow> error + (Volume \<times> string)" where
  "parseParent parent =
     (case SplitN2 ''/'' parent of
        [f0, parentName] \<Rightarrow>
          (let zombie = HasPrefix parentName ''zombie_'' in
           if HasPrefix parentName ''image_'' \<or> HasPrefix parentName ''zombie_image_'' then
             (case split_snapshot parentName of (nm, snapName) \<Rightarrow>
              case remove_prefix ''image_'' nm of
                Inl e \<Rightarrow> Inl e
              | Inr nm1 \<Rightarrow>
                 (let ct = (if HasSuffix nm1 ''.block'' then ContentTypeBlock else ContentTypeFS);
                      nm2 = (if HasSuffix nm1 ''.block'' then TrimSuffix nm1 ''.block'' else nm1)
                  in if Contains nm2 ''_''
                     then (let filesystem = last (Split (CHR ''_'') nm2)
                           in Inr (\<lparr>pool = f0, volType = VolumeTypeImage, contentType = ct,
                                    name = TrimSuffix nm2 (''_'' @ filesystem),
                                    config = [(''block.filesystem'', filesystem)],
                                    poolConfig = [], isDeleted = zombie\<rparr>, snapName))
                     else Inr (\<lparr>pool = f0, volType = VolumeTypeImage, contentType = ct,
                                name = nm2, config = [], poolConfig = [],
                                isDeleted = zombie\<rparr>, snapName)))
           else if HasPrefix parentName ''custom_'' \<or> HasPrefix parentName ''zombie_custom_'' then
             (case split_snapshot parentName of (nm, snapName) \<Rightarrow>
              case remove_prefix ''custom_'' nm of
                Inl e \<Rightarrow> Inl e
              | Inr nm1 \<Rightarrow>
                 (let ct = (if HasSuffix nm1 ''.block'' then ContentTypeBlock
                            else if HasSuffix nm1 ''.iso'' then ContentTypeISO
                            else ContentTypeFS);
                      nm2 = (if HasSuffix nm1 ''.block'' then TrimSuffix nm1 ''.block''
                             else if HasSuffix nm1 ''.iso'' then TrimSuffix nm1 ''.iso''
                             else nm1)
                  in Inr (\<lparr>pool = f0, volType = VolumeTypeCustom, contentType = ct,
                           name = nm2, config = [], poolConfig = [],
                           isDeleted = zombie\<rparr>, snapName)))
           else if HasPrefix parentName ''container_'' \<or> HasPrefix parentName ''zombie_container_'' then
             (case split_snapshot parentName of (nm, snapName) \<Rightarrow>
              case remove_prefix ''container_'' nm of
                Inl e \<Rightarrow> Inl e
              | Inr nm1 \<Rightarrow>
                 (let ct = (if HasSuffix nm1 ''.block'' then ContentTypeBlock else ContentTypeFS);
                      nm2 = (if HasSuffix nm1 ''.block'' then TrimSuffix nm1 ''.block'' else nm1)
                  in Inr (\<lparr>pool = f0, volType = VolumeTypeContainer, contentType = ct,
                           name = nm2, config = [], poolConfig = [],
                           isDeleted = zombie\<rparr>, snapName)))
           else if HasPrefix parentName ''virtual-machine_''
                   \<or> HasPrefix parentName ''zombie_virtual-machine_'' then
             (case split_snapshot parentName of (nm, snapName) \<Rightarrow>
              case remove_prefix ''virtual-machine_'' nm of
                Inl e \<Rightarrow> Inl e
              | Inr nm1 \<Rightarrow>
                 (let ct = (if HasSuffix nm1 ''.block'' then ContentTypeBlock else ContentTypeFS);
                      nm2 = (if HasSuffix nm1 ''.block'' then TrimSuffix nm1 ''.block'' else nm1)
                  in Inr (\<lparr>pool = f0, volType = VolumeTypeVM, contentType = ct,
                           name = nm2, config = [], poolConfig = [],
                           isDeleted = zombie\<rparr>, snapName)))
           else Inl (UnrecognizedParent parent))
      | _ \<Rightarrow> Inl PoolDelimiterNotFound)"

definition parseClone :: "string \<Rightarrow> error + (string \<times> string \<times> string \<times> bool)" where
  "parseClone clone =
     (case SplitN2 ''/'' clone of
        [poolName, volumeName] \<Rightarrow>
          (let volumeDeleted = HasPrefix volumeName ''zombie_'' in
           case SplitN2 ''_'' (TrimPrefix volumeName ''zombie_'') of
             [volumeType, volumeName'] \<Rightarrow> Inr (poolName, volumeType, volumeName', volumeDeleted)
           | _ \<Rightarrow> Inl UnexpectedParsingError)
      | _ \<Rightarrow> Inl PoolDelimiterNotFound)"

text \<open>
  The claim's condition in the spec's words: with an optional \<open>zombie_\<close> prefix stripped, the
  name starts with one of the four type prefixes.
\<close>

definition has_type_prefix :: "string \<Rightarrow> bool" where
  "has_type_prefix s =
     (let r = TrimPrefix s ''zombie_''
      in HasPrefix r ''container_'' \<or> HasPrefix r ''virtual-machine_'' \<or>
         HasPrefix r ''image_'' \<or> HasPrefix r ''custom_'')"

section \<open>Backend commands\<close>

definition rbd_pool_args :: "ceph \<Rightarrow> cmd" where
  "rbd_pool_args d =
     [''rbd'', ''--id'', dconfig d ''ceph.user.name'',
      ''--cluster'', dconfig d ''ceph.cluster_name'',
      ''--pool'', dconfig d ''ceph.osd.pool_name'']"

definition rbd_args :: "ceph \<Rightarrow> cmd" where
  "rbd_args d =
     [''rbd'', ''--id'', dconfig d ''ceph.user.name'',
      ''--cluster'', dconfig d ''ceph.cluster_name'']"

text \<open>A command whose error is returned as it is and whose output is dropped.\<close>

definition run_plain :: "extern \<Rightarrow> cmd \<Rightarrow> world \<Rightarrow> error option \<times> world" where
  "run_plain X c w =
     (case RunCommand X c w of (Inl err, w1) \<Rightarrow> (Some err, w1) | (Inr out, w1) \<Rightarrow> (None, w1))"

definition rbdDeleteVolume :: "extern \<Rightarrow> ceph \<Rightarrow> Volume \<Rightarrow> world \<Rightarrow> error option \<times> world" where
  "rbdDeleteVolume X d vol w =
     run_plain X (rbd_pool_args d @ [''rm'', getRBDVolumeName X d vol '''' False]) w"

definition rbdMapVolume :: "extern \<Rightarrow> ceph \<Rightarrow> Volume \<Rightarrow> world \<Rightarrow> (error + string) \<times> world" where
  "rbdMapVolume X d vol w =
     (case RunCommand X (rbd_pool_args d @ [''map'', getRBDVolumeName X d vol '''' False]) w of
        (Inl err, w1) \<Rightarrow> (Inl err, w1)
      | (Inr devPath, w1) \<Rightarrow>
          (case split_first ''/dev/rbd'' devPath of
             None \<Rightarrow> (Inl FailedToDetectDevPath, w1)
           | Some (before, rest) \<Rightarrow> (Inr (TrimSpace (''/dev/rbd'' @ rest)), w1)))"

definition unmap_snapshot_cmd :: "extern \<Rightarrow> ceph \<Rightarrow> Volume \<Rightarrow> string \<Rightarrow> cmd" where
  "unmap_snapshot_cmd X d vol snapshotName =
     rbd_pool_args d @ [''unmap'', getRBDVolumeName X d vol snapshotName False]"

fun rbdUnmapVolumeSnapshot ::
  "nat \<Rightarrow> extern \<Rightarrow> ceph \<Rightarrow> Volume \<Rightarrow> string \<Rightarrow> bool \<Rightarrow> world \<Rightarrow>
   (error option \<times> world) option" where
  "rbdUnmapVolumeSnapshot 0 X d vol snapshotName unmapUntilEINVAL w = None"
| "rbdUnmapVolumeSnapshot (Suc fuel) X d vol snapshotName unmapUntilEINVAL w =
     (case RunCommand X (unmap_snapshot_cmd X d vol snapshotName) w of
        (Inl err, w1) \<Rightarrow>
          (case err of
             ExitError c code \<Rightarrow> if code = 22 then Some (None, w1) else Some (Some err, w1)
           | _ \<Rightarrow> Some (Some err, w1))
      | (Inr out, w1) \<Rightarrow>
          if unmapUntilEINVAL
          then rbdUnmapVolumeSnapshot fuel X d vol snapshotName unmapUntilEINVAL w1
          else Some (None, w1))"

definition rbdUnprotectVolumeSnapshot ::
  "extern \<Rightarrow> ceph \<Rightarrow> Volume \<Rightarrow> string \<Rightarrow> world \<Rightarrow> error option \<times> world" where
  "rbdUnprotectVolumeSnapshot X d vol snapshotName w =
     (case RunCommand X
             (rbd_pool_args d @ [''snap'', ''unprotect'', ''--snap'', snapshotName,
                                 getRBDVolumeName X d vol '''' False]) w of
        (Inl err, w1) \<Rightarrow>
          (case err of
             ExitError c code \<Rightarrow> if code = 22 then (None, w1) else (Some err, w1)
           | _ \<Rightarrow> (Some err, w1))
      | (Inr out, w1) \<Rightarrow> (None, w1))"

definition children_cmd :: "extern \<Rightarrow> ceph \<Rightarrow> Volume \<Rightarrow> string \<Rightarrow> cmd" where
  "children_cmd X d vol snapshotName =
     rbd_pool_args d @ [''children'', ''--image'', getRBDVolumeName X d vol '''' False,
                        ''--snap'', snapshotName]"

definition rbdListSnapshotClones ::
  "extern \<Rightarrow> ceph \<Rightarrow> Volume \<Rightarrow> string \<Rightarrow> world \<Rightarrow> (error + string list) \<times> world" where
  "rbdListSnapshotClones X d vol snapshotName w =
     (case RunCommand X (children_cmd X d vol snapshotName) w of
        (Inl err, w1) \<Rightarrow> (Inl err, w1)
      | (Inr msg, w1) \<Rightarrow>
          (let clones = Fields (TrimSpace msg)
           in if length clones = 0
              then (Inl (StatusError 404 ''Ceph RBD volume snapshot not found''), w1)
              else (Inr clones, w1)))"

definition rbdMarkVolumeDeleted ::
  "extern \<Rightarrow> ceph \<Rightarrow> Volume \<Rightarrow> string \<Rightarrow> world \<Rightarrow> error option \<times> world" where
  "rbdMarkVolumeDeleted X d vol newVolumeName w =
     (let newVol = (NewVolume (dname d) (volType vol) (contentType vol) newVolumeName
                      (config vol) (poolConfig vol))\<lparr>isDeleted := True\<rparr>;
          deletedName = getRBDVolumeName X d newVol '''' True
      in run_plain X (rbd_args d @ [''mv'', getRBDVolumeName X d vol '''' True, deletedName]) w)"

definition rbdRenameVolumeSnapshot ::
  "extern \<Rightarrow> ceph \<Rightarrow> Volume \<Rightarrow> string \<Rightarrow> string \<Rightarrow> world \<Rightarrow> error option \<times> world" where
  "rbdRenameVolumeSnapshot X d vol oldSnapshotName newSnapshotName w =
     run_plain X (rbd_args d @ [''snap'', ''rename'',
                    getRBDVolumeName X d vol oldSnapshotName True,
                    getRBDVolumeName X d vol newSnapshotName True]) w"

definition info_cmd :: "extern \<Rightarrow> ceph \<Rightarrow> Volume \<Rightarrow> cmd" where
  "info_cmd X d vol = rbd_pool_args d @ [''info'', getRBDVolumeName X d vol '''' False]"

definition rbdGetVolumeParent ::
  "extern \<Rightarrow> ceph \<Rightarrow> Volume \<Rightarrow> world \<Rightarrow> (error + string) \<times> world" where
  "rbdGetVolumeParent X d vol w =
     (case RunCommand X (info_cmd X d vol) w of
        (Inl err, w1) \<Rightarrow> (Inl err, w1)
      | (Inr msg, w1) \<Rightarrow>
          (case split_first ''parent: '' msg of
             None \<Rightarrow> (Inl (StatusError 404 ''Ceph RBD volume parent not found''), w1)
           | Some (before, rest) \<Rightarrow>
               (case split_first [CHR 0x0A] (TrimSpace rest) of
                  None \<Rightarrow> (Inl UnexpectedParsingError, w1)
                | Some (line, after) \<Rightarrow> (Inr (TrimSpace line), w1))))"

definition rbdDeleteVolumeSnapshot ::
  "extern \<Rightarrow> ceph \<Rightarrow> Volume \<Rightarrow> string \<Rightarrow> world \<Rightarrow> error option \<times> world" where
  "rbdDeleteVolumeSnapshot X d vol snapshotName w =
     run_plain X (rbd_pool_args d @ [''snap'', ''rm'',
                    getRBDVolumeName X d vol snapshotName False]) w"

text \<open>The loop of \<open>rbdListVolumeSnapshots\<close> over the decoded JSON objects.\<close>

fun snapshot_names :: "(string \<times> json) list list \<Rightarrow> string list \<Rightarrow> error + string list" where
  "snapshot_names [] snapshots = Inr snapshots"
| "snapshot_names (v # vs) snapshots =
     (case map_of v ''name'' of
        None \<Rightarrow> Inl NoNameProperty
      | Some (JString nm) \<Rightarrow> snapshot_names vs (snapshots @ [TrimSpace nm])
      | Some JOther \<Rightarrow> Inl NameNotString)"

definition snap_ls_cmd :: "extern \<Rightarrow> ceph \<Rightarrow> Volume \<Rightarrow> cmd" where
  "snap_ls_cmd X d vol =
     rbd_pool_args d @ [''--format'', ''json'', ''snap'', ''ls'',
                        getRBDVolumeName X d vol '''' False]"

definition rbdListVolumeSnapshots ::
  "extern \<Rightarrow> ceph \<Rightarrow> Volume \<Rightarrow> world \<Rightarrow> (error + string list) \<times> world" where
  "rbdListVolumeSnapshots X d vol w =
     (case RunCommand X (snap_ls_cmd X d vol) w of
        (Inl err, w1) \<Rightarrow> (Inl err, w1)
      | (Inr msg, w1) \<Rightarrow>
          (case unmarshal X msg of
             None \<Rightarrow> (Inl UnmarshalError, w1)
           | Some data \<Rightarrow>
               (case snapshot_names data [] of
                  Inl err \<Rightarrow> (Inl err, w1)
                | Inr snapshots \<Rightarrow>
                    if length snapshots = 0
                    then (Inl (StatusError 404 ''Ceph RBD volume snapshot(s) not found''), w1)
                    else (Inr snapshots, w1))))"

section \<open>The deletion engine\<close>

text \<open>
  \<open>deleteVolume\<close> and \<open>deleteVolumeSnapshot\<close> call each other for as long as the backend
  reports dependents, so both take fuel: each call of either function from the other uses
  one unit, and \<open>None\<close> means that the fuel ran out. The result is the pair the source
  returns: \<open>-1\<close> with the error, \<open>0\<close> for deleted, \<open>1\<close> for marked as a zombie.

  The body of each function is written once, with the other function as the parameter
  \<open>delSnap\<close> or \<open>delVol\<close>; \<open>engine\<close> ties the two by recursion on the fuel.
  \<open>deleteVolume_snaps\<close> is the \<open>for\<close> loop of \<open>deleteVolume\<close> over the snapshots, with the
  number of zombies so far; \<open>deleteVolumeSnapshot_clones\<close> is the \<open>for\<close> loop of
  \<open>deleteVolumeSnapshot\<close> over the clones, with \<open>canDelete\<close>; either loop gives \<open>Inl\<close>
  where the source returns from inside the loop.
\<close>

type_synonym ret = "(int \<times> error option) \<times> world"

fun deleteVolume_snaps ::
  "(Volume \<Rightarrow> string \<Rightarrow> world \<Rightarrow> ret option) \<Rightarrow> Volume \<Rightarrow> string list \<Rightarrow> int \<Rightarrow> world \<Rightarrow>
   ((error option + int) \<times> world) option" where
  "deleteVolume_snaps delSnap vol [] zombies w = Some (Inr zombies, w)"
| "deleteVolume_snaps delSnap vol (snap # snaps) zombies w =
     (case delSnap vol snap w of
        None \<Rightarrow> None
      | Some ((ret, err), w1) \<Rightarrow>
          if ret < 0 then Some (Inl err, w1)
          else if ret = 1 then deleteVolume_snaps delSnap vol snaps (zombies + 1) w1
          else deleteVolume_snaps delSnap vol snaps zombies w1)"

fun deleteVolumeSnapshot_clones ::
  "(Volume \<Rightarrow> world \<Rightarrow> ret option) \<Rightarrow> ceph \<Rightarrow> Volume \<Rightarrow> string list \<Rightarrow> bool \<Rightarrow> world \<Rightarrow>
   ((error option + bool) \<times> world) option" where
  "deleteVolumeSnapshot_clones delVol d vol [] canDelete w = Some (Inr canDelete, w)"
| "deleteVolumeSnapshot_clones delVol d vol (clone # clones) canDelete w =
     (case parseClone clone of
        Inl err \<Rightarrow> Some (Inl (Some err), w)
      | Inr (poolName, cloneType, cloneName, cloneDeleted) \<Rightarrow>
          if \<not> cloneDeleted
          then deleteVolumeSnapshot_clones delVol d vol clones False w
          else
            (case delVol ((NewVolume (dname d) cloneType (contentType vol) cloneName [] [])
                            \<lparr>isDeleted := cloneDeleted\<rparr>) w of
               None \<Rightarrow> None
             | Some ((ret, err), w1) \<Rightarrow>
                 if ret < 0 then Some (Inl err, w1)
                 else if ret = 1
                 then deleteVolumeSnapshot_clones delVol d vol clones False w1
                 else deleteVolumeSnapshot_clones delVol d vol clones canDelete w1))"

definition deleteVolume_body ::
  "(Volume \<Rightarrow> string \<Rightarrow> world \<Rightarrow> ret option) \<Rightarrow> nat \<Rightarrow> extern \<Rightarrow> ceph \<Rightarrow> Volume \<Rightarrow> world \<Rightarrow>
   ret option" where
  "deleteVolume_body delSnap n X d vol w =
     (case rbdListVolumeSnapshots X d vol w of
        (Inr snaps, w1) \<Rightarrow>
          (case deleteVolume_snaps delSnap vol snaps 0 w1 of
             None \<Rightarrow> None
           | Some (Inl err, w2) \<Rightarrow> Some ((- 1, err), w2)
           | Some (Inr zombies, w2) \<Rightarrow>
               if zombies > 0 then
                 (case rbdUnmapVolume n X d vol True w2 of
                    None \<Rightarrow> None
                  | Some (Some e, w3) \<Rightarrow> Some ((- 1, Some e), w3)
                  | Some (None, w3) \<Rightarrow>
                      if isDeleted vol then Some ((1, None), w3)
                      else (case uuid_New X w3 of
                              (u, w4) \<Rightarrow>
                                (case rbdMarkVolumeDeleted X d vol (name vol @ ''_'' @ u) w4 of
                                   (Some e, w5) \<Rightarrow> Some ((- 1, Some e), w5)
                                 | (None, w5) \<Rightarrow> Some ((1, None), w5))))
               else if zombies = 0 then
                 (case rbdDeleteVolume X d vol w2 of
                    (Some e, w3) \<Rightarrow> Some ((- 1, Some e), w3)
                  | (None, w3) \<Rightarrow> Some ((0, None), w3))
               else Some ((0, None), w2))
      | (Inl err, w1) \<Rightarrow>
          if \<not> IsNotFoundError err then Some ((- 1, Some err), w1)
          else
            (case rbdGetVolumeParent X d vol w1 of
               (Inr parent, w2) \<Rightarrow>
                 (case parseParent parent of
                    Inl e \<Rightarrow> Some ((- 1, Some e), w2)
                  | Inr (parentVol, parentSnapshotName) \<Rightarrow>
                      (case rbdUnmapVolume n X d vol True w2 of
                         None \<Rightarrow> None
                       | Some (Some e, w3) \<Rightarrow> Some ((- 1, Some e), w3)
                       | Some (None, w3) \<Rightarrow>
                           (case rbdDeleteVolume X d vol w3 of
                              (Some e, w4) \<Rightarrow> Some ((- 1, Some e), w4)
                            | (None, w4) \<Rightarrow>
                                if isDeleted parentVol \<or> HasPrefix parentSnapshotName ''zombie_''
                                then
                                  (case delSnap parentVol parentSnapshotName w4 of
                                     None \<Rightarrow> None
                                   | Some ((ret, err'), w5) \<Rightarrow>
                                       if ret < 0 then Some ((- 1, err'), w5)
                                       else Some ((0, None), w5))
                                else Some ((0, None), w4))))
             | (Inl err2, w2) \<Rightarrow>
                 if \<not> IsNotFoundError err2 then Some ((- 1, Some err2), w2)
                 else
                   (case rbdUnmapVolume n X d vol True w2 of
                      None \<Rightarrow> None
                    | Some (Some e, w3) \<Rightarrow> Some ((- 1, Some e), w3)
                    | Some (None, w3) \<Rightarrow>
                        (case rbdDeleteVolume X d vol w3 of
                           (Some e, w4) \<Rightarrow> Some ((- 1, Some e), w4)
                         | (None, w4) \<Rightarrow> Some ((0, None), w4)))))"

definition deleteVolumeSnapshot_body ::
  "(Volume \<Rightarrow> world \<Rightarrow> ret option) \<Rightarrow> nat \<Rightarrow> extern \<Rightarrow> ceph \<Rightarrow> Volume \<Rightarrow> string \<Rightarrow> world \<Rightarrow>
   ret option" where
  "deleteVolumeSnapshot_body delVol n X d vol snapshotName w =
     (case rbdListSnapshotClones X d vol snapshotName w of
        (Inl err, w1) \<Rightarrow>
          if \<not> IsNotFoundError err then Some ((- 1, Some err), w1)
          else
            (case rbdUnprotectVolumeSnapshot X d vol snapshotName w1 of
               (Some e, w2) \<Rightarrow> Some ((- 1, Some e), w2)
             | (None, w2) \<Rightarrow>
                 (case rbdUnmapVolumeSnapshot n X d vol snapshotName True w2 of
                    None \<Rightarrow> None
                  | Some (Some e, w3) \<Rightarrow> Some ((- 1, Some e), w3)
                  | Some (None, w3) \<Rightarrow>
                      (case rbdDeleteVolumeSnapshot X d vol snapshotName w3 of
                         (Some e, w4) \<Rightarrow> Some ((- 1, Some e), w4)
                       | (None, w4) \<Rightarrow>
                           if isDeleted vol then
                             (case delVol vol w4 of
                                None \<Rightarrow> None
                              | Some ((ret, err'), w5) \<Rightarrow>
                                  if ret < 0 then Some ((- 1, err'), w5)
                                  else Some ((0, None), w5))
                           else Some ((0, None), w4))))
      | (Inr clones, w1) \<Rightarrow>
          (case deleteVolumeSnapshot_clones delVol d vol clones True w1 of
             None \<Rightarrow> None
           | Some (Inl err, w2) \<Rightarrow> Some ((- 1, err), w2)
           | Some (Inr canDelete, w2) \<Rightarrow>
               if canDelete then
                 (case rbdUnprotectVolumeSnapshot X d vol snapshotName w2 of
                    (Some e, w3) \<Rightarrow> Some ((- 1, Some e), w3)
                  | (None, w3) \<Rightarrow>
                      (case rbdUnmapVolumeSnapshot n X d vol snapshotName True w3 of
                         None \<Rightarrow> None
                       | Some (Some e, w4) \<Rightarrow> Some ((- 1, Some e), w4)
                       | Some (None, w4) \<Rightarrow>
                           (case rbdDeleteVolumeSnapshot X d vol snapshotName w4 of
                              (Some e, w5) \<Rightarrow> Some ((- 1, Some e), w5)
                            | (None, w5) \<Rightarrow>
                                if isDeleted vol then
                                  (case delVol vol w5 of
                                     None \<Rightarrow> None
                                   | Some ((ret, err'), w6) \<Rightarrow>
                                       if ret < 0 then Some ((- 1, err'), w6)
                                       else Some ((1, None), w6))
                                else Some ((1, None), w5))))
               else if HasPrefix snapshotName ''zombie_'' then Some ((1, None), w2)
               else
                 (case rbdUnmapVolumeSnapshot n X d vol snapshotName True w2 of
                    None \<Rightarrow> None
                  | Some (Some e, w3) \<Rightarrow> Some ((- 1, Some e), w3)
                  | Some (None, w3) \<Rightarrow>
                      (case uuid_New X w3 of
                         (u, w4) \<Rightarrow>
                           (case rbdRenameVolumeSnapshot X d vol snapshotName
                                   (''zombie_snapshot_'' @ u) w4 of
                              (Some e, w5) \<Rightarrow> Some ((- 1, Some e), w5)
                            | (None, w5) \<Rightarrow> Some ((1, None), w5))))))"

primrec engine ::
  "nat \<Rightarrow> extern \<Rightarrow> ceph \<Rightarrow>
   (Volume \<Rightarrow> world \<Rightarrow> ret option) \<times> (Volume \<Rightarrow> string \<Rightarrow> world \<Rightarrow> ret option)" where
  "engine 0 X d = ((\<lambda>vol w. None), (\<lambda>vol snapshotName w. None))"
| "engine (Suc n) X d =
     (deleteVolume_body (snd (engine n X d)) n X d,
      deleteVolumeSnapshot_body (fst (engine n X d)) n X d)"

definition deleteVolume :: "nat \<Rightarrow> extern \<Rightarrow> ceph \<Rightarrow> Volume \<Rightarrow> world \<Rightarrow> ret option" where
  "deleteVolume n X d = fst (engine n X d)"

definition deleteVolumeSnapshot ::
  "nat \<Rightarrow> extern \<Rightarrow> ceph \<Rightarrow> Volume \<Rightarrow> string \<Rightarrow> world \<Rightarrow> ret option" where
  "deleteVolumeSnapshot n X d = snd (engine n X d)"


definition rm_cmd :: "extern \<Rightarrow> ceph \<Rightarrow> Volume \<Rightarrow> cmd" where
  "rm_cmd X d vol = rbd_pool_args d @ [''rm'', getRBDVolumeName X d vol '''' False]"


section \<open>The device mapping resolver\<close>

text \<open>
  \<open>strconv.ParseUint(s, 10, 64)\<close>: a non-empty string of decimal digits whose value fits
  64 bits. \<open>digits\<close> is the \<open>%d\<close> of \<open>fmt.Sprintf\<close> on an unsigned number.
\<close>

definition isDigit :: "char \<Rightarrow> bool" where
  "isDigit c = (48 \<le> (of_char c :: int) \<and> (of_char c :: int) \<le> 57)"

definition ParseUint :: "string \<Rightarrow> int option" where
  "ParseUint s =
     (if s = [] \<or> \<not> list_all isDigit s then None
      else (let v = foldl (\<lambda>a c. 10 * a + (of_char c - 48)) 0 s
            in if v \<le> 18446744073709551615 then Some v else None))"

function digits :: "int \<Rightarrow> string" where
  "digits n =
     (if n < 10 then [char_of (48 + n)]
      else digits (n div 10) @ [char_of (48 + n mod 10)])"
  by pat_completeness auto
termination
  by (relation "measure nat") auto

declare digits.simps [simp del]

definition sysfs_path :: "string \<Rightarrow> string \<Rightarrow> string" where
  "sysfs_path fName attr = ''/sys/devices/rbd/'' @ fName @ ''/'' @ attr"

text \<open>
  The loop of \<open>getRBDMappedDevPath\<close> over the directory entries (name, is a directory).
  \<open>None\<close>: the loop ends without a match; \<open>Some (Inl err)\<close>: the function returns the
  error; \<open>Some (Inr path)\<close>: the function returns the device path.
\<close>

fun scan_devices ::
  "extern \<Rightarrow> ceph \<Rightarrow> Volume \<Rightarrow> (string \<times> bool) list \<Rightarrow> (error + string) option" where
  "scan_devices X d vol [] = None"
| "scan_devices X d vol ((fName, isDir) # files) =
     (if \<not> isDir then scan_devices X d vol files
      else
        (case ParseUint fName of
           None \<Rightarrow> scan_devices X d vol files
         | Some idx \<Rightarrow>
             (case read_file X (sysfs_path fName ''pool'') of
                Inl err \<Rightarrow>
                  if err = ErrNotExist then scan_devices X d vol files else Some (Inl err)
              | Inr devPoolName \<Rightarrow>
                  if TrimSpace devPoolName \<noteq> dconfig d ''ceph.osd.pool_name''
                  then scan_devices X d vol files
                  else
                    (case read_file X (sysfs_path fName ''name'') of
                       Inl err \<Rightarrow>
                         if err = ErrNotExist then scan_devices X d vol files
                         else Some (Inl err)
                     | Inr devName \<Rightarrow>
                         (case SplitN2 ''@'' (getRBDVolumeName X d vol '''' False) of
                            [] \<Rightarrow> Some (Inl Panic)
                          | part0 # parts \<Rightarrow>
                              if TrimSpace devName \<noteq> part0 then scan_devices X d vol files
                              else
                                (case (case read_file X (sysfs_path fName ''current_snap'') of
                                         Inl err \<Rightarrow>
                                           if err \<noteq> ErrNotExist then Inl err else Inr ''''
                                       | Inr devSnap \<Rightarrow> Inr devSnap) of
                                   Inl err \<Rightarrow> Some (Inl err)
                                 | Inr devSnap \<Rightarrow>
                                     if is_snapshot X vol then
                                       (if parts = [TrimSpace devSnap]
                                        then Some (Inr (''/dev/rbd'' @ digits idx))
                                        else scan_devices X d vol files)
                                     else if TrimSpace devSnap \<in> set [''-'', '''']
                                     then Some (Inr (''/dev/rbd'' @ digits idx))
                                     else scan_devices X d vol files))))))"

text \<open>
  "List all RBD devices": an error of \<open>os.ReadDir\<close> other than "does not exist" is
  returned, and a registry that does not exist has no entries.
\<close>

definition list_devices :: "extern \<Rightarrow> error + (string \<times> bool) list" where
  "list_devices X =
     (case read_dir X ''/sys/devices/rbd'' of
        Inl err \<Rightarrow> if err \<noteq> ErrNotExist then Inl err else Inr []
      | Inr files \<Rightarrow> Inr files)"

definition getRBDMappedDevPath ::
  "extern \<Rightarrow> ceph \<Rightarrow> Volume \<Rightarrow> bool \<Rightarrow> world \<Rightarrow> (error + (bool \<times> string)) \<times> world" where
  "getRBDMappedDevPath X d vol mapIfMissing w =
     (case list_devices X of
        Inl err \<Rightarrow> (Inl err, w)
      | Inr files \<Rightarrow>
          (case scan_devices X d vol files of
             Some (Inl err) \<Rightarrow> (Inl err, w)
           | Some (Inr path) \<Rightarrow> (Inr (False, path), w)
           | None \<Rightarrow>
               if mapIfMissing then
                 (case rbdMapVolume X d vol w of
                    (Inl err, w1) \<Rightarrow> (Inl err, w1)
                  | (Inr devPath, w1) \<Rightarrow> (Inr (True, devPath), w1))
               else (Inl (NotMapped (name vol)), w)))"

text \<open>
  The claim's words. An attribute of a device is the content of its file with the
  surrounding white space trimmed. The image name of the target is the volume's RBD name up
  to the first \<open>@\<close>, and its snapshot name is what follows. \<open>device_matches\<close>: the entry is
  a device directory whose pool and image name are those of the target and whose active
  snapshot is the target's snapshot name when the volume is a snapshot, and is empty or
  \<open>-\<close> (or the attribute file is absent) when it is not. \<open>readable\<close>: no attribute of the
  entry fails to read with an error other than "does not exist".
\<close>

definition attribute :: "extern \<Rightarrow> string \<Rightarrow> string \<Rightarrow> string option" where
  "attribute X fName attr =
     (case read_file X (sysfs_path fName attr) of
        Inr content \<Rightarrow> Some (TrimSpace content) | Inl err \<Rightarrow> None)"

definition absent :: "extern \<Rightarrow> string \<Rightarrow> string \<Rightarrow> bool" where
  "absent X fName attr = (read_file X (sysfs_path fName attr) = Inl ErrNotExist)"

definition target_image :: "extern \<Rightarrow> ceph \<Rightarrow> Volume \<Rightarrow> string option" where
  "target_image X d vol =
     (case SplitN2 ''@'' (getRBDVolumeName X d vol '''' False) of
        [] \<Rightarrow> None | part0 # parts \<Rightarrow> Some part0)"

definition target_snapshot :: "extern \<Rightarrow> ceph \<Rightarrow> Volume \<Rightarrow> string option" where
  "target_snapshot X d vol =
     (case SplitN2 ''@'' (getRBDVolumeName X d vol '''' False) of
        [part0, part1] \<Rightarrow> Some part1 | _ \<Rightarrow> None)"

definition device_matches :: "extern \<Rightarrow> ceph \<Rightarrow> Volume \<Rightarrow> string \<times> bool \<Rightarrow> bool" where
  "device_matches X d vol f =
     (snd f \<and> ParseUint (fst f) \<noteq> None \<and>
      attribute X (fst f) ''pool'' = Some (dconfig d ''ceph.osd.pool_name'') \<and>
      attribute X (fst f) ''name'' = target_image X d vol \<and>
      (if is_snapshot X vol
       then (attribute X (fst f) ''current_snap'' = target_snapshot X d vol \<and>
             target_snapshot X d vol \<noteq> None) \<or>
            (absent X (fst f) ''current_snap'' \<and> target_snapshot X d vol = Some '''')
       else attribute X (fst f) ''current_snap'' = Some ''-'' \<or>
            attribute X (fst f) ''current_snap'' = Some '''' \<or>
            absent X (fst f) ''current_snap''))"

definition readable :: "extern \<Rightarrow> string \<times> bool \<Rightarrow> bool" where
  "readable X f =
     list_all (\<lambda>attr. attribute X (fst f) attr \<noteq> None \<or> absent X (fst f) attr)
       [''pool'', ''name'', ''current_snap'']"

definition dev_path :: "string \<times> bool \<Rightarrow> string" where
  "dev_path f = (case ParseUint (fst f) of None \<Rightarrow> [] | Some idx \<Rightarrow> ''/dev/rbd'' @ digits idx)"

section \<open>Receiving a volume\<close>

text \<open>
  One run of \<open>receiveVolume\<close>, given by what its steps report: the errors of
  \<open>cmd.StdinPipe\<close>, \<open>cmd.StderrPipe\<close> and \<open>cmd.Start\<close>, the text read from the process's
  stderr, the result of \<open>io.Copy\<close> from the connection into the process's stdin, and the
  error of \<open>cmd.Wait\<close>.

  The copy task is a goroutine that shares the variable \<open>err\<close> with the main task: it
  assigns the result of \<open>io.Copy\<close> to \<open>err\<close>, and later sends the value of \<open>err\<close> on
  \<open>chCopyConn\<close>; the main task assigns the result of \<open>cmd.Start\<close> to the same variable and
  then tests it. Nothing orders the two steps of the copy task with respect to these two
  steps of the main task, so a run also says how they interleave:
  \<open>copy_before_start\<close> is the number of steps that the copy task takes before the main
  task assigns the result of \<open>cmd.Start\<close>, \<open>copy_before_test\<close> the number of steps it
  takes between that assignment and the test \<open>err != nil\<close>, and \<open>copy_before_return\<close> the
  number of steps it takes between a test that has found an error and the reading of
  \<open>err\<close> by \<open>return err\<close>. Each reading and each assignment of \<open>err\<close> is one atomic
  step. The receive from the channel blocks until the copy task has sent, so the copy
  task has taken both steps when the main task goes on to \<open>cmd.Wait\<close>.
\<close>

record receive_run =
  stdinPipeErr :: "error option"
  stderrPipeErr :: "error option"
  startErr :: "error option"
  stderrOutput :: string
  copyErr :: "error option"
  waitErr :: "error option"
  copy_before_start :: nat
  copy_before_test :: nat
  copy_before_return :: nat

text \<open>
  What the two tasks share: the variable \<open>err\<close>, the channel \<open>chCopyConn\<close> (empty, or
  holding the value sent), and the number of steps that the copy task has taken.
\<close>

record shared =
  shared_err :: "error option"
  channel :: "error option option"
  copy_pc :: nat

definition copy_task_step :: "receive_run \<Rightarrow> shared \<Rightarrow> shared" where
  "copy_task_step r s =
     (if copy_pc s = 0 then s\<lparr>shared_err := copyErr r, copy_pc := 1\<rparr>
      else if copy_pc s = 1 then s\<lparr>channel := Some (shared_err s), copy_pc := 2\<rparr>
      else s)"

primrec copy_task_steps :: "nat \<Rightarrow> receive_run \<Rightarrow> shared \<Rightarrow> shared" where
  "copy_task_steps 0 r s = s"
| "copy_task_steps (Suc k) r s = copy_task_steps k r (copy_task_step r s)"

text \<open>
  The result of a run: the error returned, and the calls that the main task has made on
  the process and on the channel before returning.
\<close>

datatype main_call = CmdStart | ChannelReceive | CmdWait

record receive_result =
  returned :: "error option"
  calls :: "main_call list"

definition receiveVolume :: "receive_run \<Rightarrow> receive_result" where
  "receiveVolume r =
     (case stdinPipeErr r of
        Some err \<Rightarrow> \<lparr>returned = Some err, calls = []\<rparr>
      | None \<Rightarrow>
          (case stderrPipeErr r of
             Some err \<Rightarrow> \<lparr>returned = Some err, calls = []\<rparr>
           | None \<Rightarrow>
               (let s0 = \<lparr>shared_err = None, channel = None, copy_pc = 0\<rparr>;
                    s1 = copy_task_steps (copy_before_start r) r s0;
                    s2 = s1\<lparr>shared_err := startErr r\<rparr>;
                    s3 = copy_task_steps (copy_before_test r) r s2
                in (case shared_err s3 of
                      Some e \<Rightarrow>
                        (let s4 = copy_task_steps (copy_before_return r) r s3
                         in \<lparr>returned = shared_err s4, calls = [CmdStart]\<rparr>)
                    | None \<Rightarrow>
                        (let output = stderrOutput r;
                             s4 = copy_task_steps 2 r s3;
                             chCopyConnErr = (case channel s4 of None \<Rightarrow> None | Some v \<Rightarrow> v);
                             s5 = s4\<lparr>shared_err := waitErr r\<rparr>;
                             errs = (case shared_err s5 of
                                       None \<Rightarrow> []
                                     | Some err \<Rightarrow>
                                         [err] @ (case chCopyConnErr of
                                                    None \<Rightarrow> []
                                                  | Some cerr \<Rightarrow> [cerr]))
                         in \<lparr>returned = (if length errs > 0
                                          then Some (ImportDiffProblem errs output) else None),
                             calls = [CmdStart, ChannelReceive, CmdWait]\<rparr>)))))"

text \<open>
  The three values that the interleaving decides. \<open>tested_value\<close> is what the main task
  reads in its test after \<open>cmd.Start\<close>: the result of \<open>io.Copy\<close> when the copy task has
  assigned it between the assignment of \<open>cmd.Start\<close>'s result and the test, and
  \<open>cmd.Start\<close>'s result otherwise. \<open>return_value\<close> is what \<open>return err\<close> reads after a test
  that has found an error: the result of \<open>io.Copy\<close> when the copy task has assigned it
  between the test and the return, and the value tested otherwise. \<open>channel_value\<close> is
  what the copy task sends: the result of \<open>cmd.Start\<close> when the main task has assigned it
  between the two steps of the copy task, and the result of \<open>io.Copy\<close> otherwise.
\<close>

definition tested_value :: "receive_run \<Rightarrow> error option" where
  "tested_value r =
     (if copy_before_start r = 0 \<and> 0 < copy_before_test r then copyErr r else startErr r)"

definition return_value :: "receive_run \<Rightarrow> error option" where
  "return_value r =
     (if copy_before_start r = 0 \<and> copy_before_test r = 0 \<and> 0 < copy_before_return r
      then copyErr r else tested_value r)"

definition channel_value :: "receive_run \<Rightarrow> error option" where
  "channel_value r = (if copy_before_start r = 1 then startErr r else copyErr r)"

section \<open>A concrete driver and backend for evaluation\<close>

text \<open>
  Modelled from the spec: \<open>CephGetRBDImageName\<close> is not part of the excerpt. The instance
  used for evaluation follows the format of the naming codec,
  \<open>["zombie_"]<type>_<name>[.block|.iso][_<filesystemHint>][@<snapshotName>]\<close>,
  with the filesystem hint on image volumes only.
\<close>

definition spec_image_name :: "Volume \<Rightarrow> string \<Rightarrow> bool \<Rightarrow> string" where
  "spec_image_name vol snapName zombie =
     (if zombie then ''zombie_'' else '''') @ volType vol @ ''_'' @ name vol @
     (case contentType vol of
        ContentTypeBlock \<Rightarrow> ''.block'' | ContentTypeISO \<Rightarrow> ''.iso'' | ContentTypeFS \<Rightarrow> '''') @
     (if volType vol = VolumeTypeImage
      then (case map_of (config vol) ''block.filesystem'' of
              Some fs \<Rightarrow> ''_'' @ fs | None \<Rightarrow> '''')
      else '''') @
     (if snapName = '''' then '''' else ''@'' @ snapName)"

definition ex_ceph :: ceph where
  "ex_ceph = \<lparr>dname = ''pool0'',
     dconfig = (\<lambda>k. if k = ''ceph.osd.pool_name'' then ''rbd''
                    else if k = ''ceph.user.name'' then ''admin''
                    else if k = ''ceph.cluster_name'' then ''ceph'' else '''')\<rparr>"

definition ex_vol :: Volume where
  "ex_vol = NewVolume ''pool0'' VolumeTypeContainer ContentTypeFS ''c1'' [] []"

text \<open>
  A stand-in for the JSON decoder on the two outputs of \<open>rbd snap ls\<close> that the examples
  use: no snapshot, and the one snapshot \<open>snapshot_snap0\<close>.
\<close>

definition ex_unmarshal :: "string \<Rightarrow> (string \<times> json) list list option" where
  "ex_unmarshal s =
     (if s = ''[]'' then Some []
      else if s = ''[{name:snapshot_snap0}]'' then Some [[(''name'', JString ''snapshot_snap0'')]]
      else None)"

text \<open>A backend given by its answer to each command after a given history.\<close>

definition ex_extern :: "(cmd list \<Rightarrow> cmd \<Rightarrow> outcome) \<Rightarrow> extern" where
  "ex_extern r = \<lparr>respond = r, new_uuid = (\<lambda>n. ''uuid-'' @ replicate n (CHR ''x'')),
     image_name = spec_image_name, is_snapshot = (\<lambda>v. False),
     unmarshal = ex_unmarshal, read_dir = (\<lambda>p. Inl ErrNotExist),
     read_file = (\<lambda>p. Inl ErrNotExist)\<rparr>"

definition w0 :: world where
  "w0 = \<lparr>issued = [], uuids = 0\<rparr>"

text \<open>The unmap command answers "busy" \<open>n\<close> times, then \<open>r\<close>, then "already unmapped".\<close>

definition busy_then :: "nat \<Rightarrow> outcome \<Rightarrow> cmd list \<Rightarrow> cmd \<Rightarrow> outcome" where
  "busy_then n r h c =
     (if length h < n then Exit 16 else if length h = n then r else Exit 22)"

text \<open>A volume mapped \<open>m\<close> times and never busy: each unmap removes one mapping.\<close>

definition stacked :: "nat \<Rightarrow> cmd list \<Rightarrow> cmd \<Rightarrow> outcome" where
  "stacked m h c = (if count_list h c < m then Stdout '''' else Exit 22)"

text \<open>
  The zombie volume \<open>zombie_container_c1\<close>, and the zombie clone \<open>zombie_container_c2\<close> as
  \<open>deleteVolumeSnapshot\<close> builds it from the name that the backend reports.
\<close>

definition ex_zombie_vol :: Volume where
  "ex_zombie_vol = ex_vol\<lparr>isDeleted := True\<rparr>"

definition ex_clone :: Volume where
  "ex_clone = (NewVolume ''pool0'' ''container'' ContentTypeFS ''c2'' [] [])\<lparr>isDeleted := True\<rparr>"

text \<open>
  Backend A: the snapshot has the one clone \<open>zombie_container_c2\<close>; no volume has a
  snapshot of its own; the clone's parent is the live snapshot
  \<open>container_c1@snapshot_snap0\<close>; nothing is mapped and every other command succeeds.
\<close>

definition backend_A :: "cmd list \<Rightarrow> cmd \<Rightarrow> outcome" where
  "backend_A h c =
     (if ''children'' \<in> set c then Stdout ''rbd/zombie_container_c2''
      else if ''ls'' \<in> set c then Stdout ''[]''
      else if ''info'' \<in> set c
      then Stdout (''rbd image: size 1 GiB'' @ [CHR 0x0A] @
                   ''        parent: rbd/container_c1@snapshot_snap0'' @ [CHR 0x0A] @
                   ''        overlap: 1 GiB'' @ [CHR 0x0A])
      else if ''unmap'' \<in> set c then Exit 22
      else Stdout [])"

text \<open>
  Backend B: the snapshot has no clone, nothing is mapped, and listing the snapshots of a
  volume fails with exit code 1; every other command succeeds.
\<close>

definition backend_B :: "cmd list \<Rightarrow> cmd \<Rightarrow> outcome" where
  "backend_B h c =
     (if ''children'' \<in> set c then Stdout []
      else if ''ls'' \<in> set c then Exit 1
      else if ''unmap'' \<in> set c then Exit 22
      else Stdout [])"


text \<open>
  Backend D: the volume has no snapshot and nothing is mapped; the volume
  \<open>zombie_container_c2\<close> is a clone of the snapshot that \<open>parent\<close> names, and that snapshot
  has no clone left.
\<close>

definition backend_D :: "string \<Rightarrow> cmd list \<Rightarrow> cmd \<Rightarrow> outcome" where
  "backend_D parent h c =
     (if ''children'' \<in> set c then Stdout []
      else if ''ls'' \<in> set c then Stdout ''[]''
      else if ''info'' \<in> set c
      then (if last c = ''zombie_container_c2''
            then Stdout (''        parent: '' @ parent @ [CHR 0x0A] @ ''        overlap: 1 GiB'')
            else Stdout ''rbd image'')
      else if ''unmap'' \<in> set c then Exit 22
      else Stdout [])"

text \<open>
  Backend E: the volume has the one snapshot \<open>snapshot_snap0\<close>, which has no clone;
  nothing is mapped and every other command succeeds.
\<close>

definition backend_E :: "cmd list \<Rightarrow> cmd \<Rightarrow> outcome" where
  "backend_E h c =
     (if ''children'' \<in> set c then Stdout []
      else if ''ls'' \<in> set c then Stdout ''[{name:snapshot_snap0}]''
      else if ''unmap'' \<in> set c then Exit 22
      else Stdout [])"


text \<open>
  A device registry with three mapped devices of pool \<open>rbd\<close>: device 0 is the live image
  \<open>container_c9\<close>, device 1 is the snapshot \<open>snapshot_snap0\<close> of \<open>container_c1\<close>, device 2
  is the live image \<open>container_c1\<close>; the entry \<open>uevent\<close> is a plain file.
\<close>

definition ex_read_dir :: "string \<Rightarrow> error + (string \<times> bool) list" where
  "ex_read_dir p =
     (if p = ''/sys/devices/rbd''
      then Inr [(''uevent'', False), (''0'', True), (''1'', True), (''2'', True)]
      else Inl ErrNotExist)"

definition ex_read_file :: "string \<Rightarrow> error + string" where
  "ex_read_file p =
     (if p \<in> set [''/sys/devices/rbd/0/pool'', ''/sys/devices/rbd/1/pool'',
                   ''/sys/devices/rbd/2/pool''] then Inr (''rbd'' @ [CHR 0x0A])
      else if p = ''/sys/devices/rbd/0/name'' then Inr (''container_c9'' @ [CHR 0x0A])
      else if p \<in> set [''/sys/devices/rbd/1/name'', ''/sys/devices/rbd/2/name'']
      then Inr (''container_c1'' @ [CHR 0x0A])
      else if p = ''/sys/devices/rbd/1/current_snap'' then Inr (''snapshot_snap0'' @ [CHR 0x0A])
      else if p \<in> set [''/sys/devices/rbd/0/current_snap'', ''/sys/devices/rbd/2/current_snap'']
      then Inr (''-'' @ [CHR 0x0A])
      else Inl ErrNotExist)"

text \<open>
  In this example a volume that denotes a snapshot carries the name \<open>parent/snapshot\<close>,
  and its RBD name is that of the parent followed by \<open>@\<close> and the snapshot name.
\<close>

definition ex_snapshot_image_name :: "Volume \<Rightarrow> string \<Rightarrow> bool \<Rightarrow> string" where
  "ex_snapshot_image_name vol snapName zombie =
     (case split_first ''/'' (name vol) of
        None \<Rightarrow> spec_image_name vol snapName zombie
      | Some (parent, snap) \<Rightarrow>
          spec_image_name (vol\<lparr>name := parent\<rparr>) (if snapName = [] then snap else snapName) zombie)"

definition ex_sysfs :: extern where
  "ex_sysfs = (ex_extern (\<lambda>h c. Exit 1))
     \<lparr>image_name := ex_snapshot_image_name, is_snapshot := (\<lambda>v. Contains (name v) ''/''),
      read_dir := ex_read_dir, read_file := ex_read_file\<rparr>"

definition ex_snapshot_vol :: Volume where
  "ex_snapshot_vol = NewVolume ''pool0'' VolumeTypeContainer ContentTypeFS ''c1/snapshot_snap0'' [] []"

definition ex_unmapped_vol :: Volume where
  "ex_unmapped_vol = NewVolume ''pool0'' VolumeTypeContainer ContentTypeFS ''c5'' [] []"

text \<open>
  A run of \<open>receiveVolume\<close> in which the pipes are created and \<open>cmd.Start\<close> reports no
  error; the copy task takes \<open>a\<close> steps before the result of \<open>cmd.Start\<close> is assigned and
  \<open>b\<close> steps between that and the test; \<open>c\<close> is the result of \<open>io.Copy\<close> and \<open>e\<close> what
  \<open>cmd.Wait\<close> reports. \<open>ex_failed_start\<close> is a run in which \<open>cmd.Start\<close> fails, the copy
  task copies nothing and reports no error, and \<open>n\<close> of its steps fall between the main
  task's test and its \<open>return err\<close>.
\<close>

definition ex_run :: "nat \<Rightarrow> nat \<Rightarrow> error option \<Rightarrow> error option \<Rightarrow> receive_run" where
  "ex_run a b c e = \<lparr>stdinPipeErr = None, stderrPipeErr = None, startErr = None,
                     stderrOutput = ''rbd: import-diff failed'', copyErr = c, waitErr = e,
                     copy_before_start = a, copy_before_test = b, copy_before_return = 0\<rparr>"

definition ex_failed_start :: "nat \<Rightarrow> receive_run" where
  "ex_failed_start n =
     \<lparr>stdinPipeErr = None, stderrPipeErr = None,
      startErr = Some (RunFailure [''rbd'', ''import-diff'']),
      stderrOutput = [], copyErr = None, waitErr = Some (RunFailure [''rbd'', ''import-diff'']),
      copy_before_start = 0, copy_before_test = 0, copy_before_return = n\<rparr>"

section \<open>Unmapping: retries and the already-unmapped exit code\<close>

lemma again_busy_steps:
  "answers X (issued w) (unmap_cmd d v) (replicate k (Exit 16) @ rest) \<Longrightarrow>
   b + int k < 10 \<Longrightarrow>
   rbdUnmapVolume_again (k + fuel) X d v u b w =
     rbdUnmapVolume_again fuel X d v u (b + int k)
       (w\<lparr>issued := issued w @ replicate k (unmap_cmd d v)\<rparr>) \<and>
   answers X (issued w @ replicate k (unmap_cmd d v)) (unmap_cmd d v) rest"
proof (induction k arbitrary: b w)
  case 0
  then show ?case by simp
next
  case (Suc k)
  let ?c = "unmap_cmd d v"
  let ?w1 = "w\<lparr>issued := issued w @ [?c]\<rparr>"
  from Suc.prems(1) have first: "respond X (issued w) ?c = Exit 16"
    and rest: "answers X (issued ?w1) ?c (replicate k (Exit 16) @ rest)"
    by simp_all
  have bound: "(b + 1) + int k < 10" using Suc.prems(2) by simp
  have step: "rbdUnmapVolume_again (Suc k + fuel) X d v u b w =
        rbdUnmapVolume_again (k + fuel) X d v u (b + 1) ?w1"
    using first Suc.prems(2) by (simp add: RunCommand_def)
  have ih: "rbdUnmapVolume_again (k + fuel) X d v u (b + 1) ?w1 =
      rbdUnmapVolume_again fuel X d v u (b + 1 + int k)
        (?w1\<lparr>issued := issued ?w1 @ replicate k ?c\<rparr>) \<and>
      answers X (issued ?w1 @ replicate k ?c) ?c rest"
    by (rule Suc.IH [OF rest bound])
  have w_eq: "?w1\<lparr>issued := issued ?w1 @ replicate k ?c\<rparr> =
      w\<lparr>issued := issued w @ replicate (Suc k) ?c\<rparr>"
    by simp
  have b_eq: "b + 1 + int k = b + int (Suc k)" by simp
  show ?case
    using step ih unfolding w_eq b_eq by simp
qed

lemma again_EINVAL:
  "respond X (issued w) (unmap_cmd d v) = Exit 22 \<Longrightarrow>
   rbdUnmapVolume_again (Suc fuel) X d v u b w =
   Some (None, w\<lparr>issued := issued w @ [unmap_cmd d v]\<rparr>)"
  by (simp add: RunCommand_def)

lemma again_success_once:
  "respond X (issued w) (unmap_cmd d v) = Stdout out \<Longrightarrow>
   rbdUnmapVolume_again (Suc fuel) X d v False b w =
   Some (None, w\<lparr>issued := issued w @ [unmap_cmd d v]\<rparr>)"
  by (simp add: RunCommand_def)

lemma again_success_repeat:
  "respond X (issued w) (unmap_cmd d v) = Stdout out \<Longrightarrow>
   rbdUnmapVolume_again (Suc fuel) X d v True b w =
   rbdUnmapVolume_again fuel X d v True b (w\<lparr>issued := issued w @ [unmap_cmd d v]\<rparr>)"
  by (simp add: RunCommand_def)

lemma again_busy_last:
  "respond X (issued w) (unmap_cmd d v) = Exit 16 \<Longrightarrow>
   rbdUnmapVolume_again (Suc fuel) X d v u 9 w =
   Some (Some (ExitError (unmap_cmd d v) 16), w\<lparr>issued := issued w @ [unmap_cmd d v]\<rparr>)"
  by (simp add: RunCommand_def)

lemma replicate_snoc_same: "replicate k c @ [c] = replicate (Suc k) c"
  by (simp add: replicate_append_same)

lemma unmap_nine_busy_then_success:
  assumes a: "answers X (issued w) (unmap_of X d vol) (replicate 9 (Exit 16) @ [Stdout out])"
  shows "rbdUnmapVolume (10 + fuel) X d vol False w =
         Some (None, w\<lparr>issued := issued w @ replicate 10 (unmap_of X d vol)\<rparr>)"
proof -
  let ?v = "getRBDVolumeName X d vol '''' False"
  let ?c = "unmap_cmd d ?v"
  have a': "answers X (issued w) ?c (replicate 9 (Exit 16) @ [Stdout out])"
    using a by (simp only: unmap_of_def)
  have s: "rbdUnmapVolume_again (9 + Suc fuel) X d ?v False 0 w =
           rbdUnmapVolume_again (Suc fuel) X d ?v False (0 + int 9)
             (w\<lparr>issued := issued w @ replicate 9 ?c\<rparr>)"
    and r: "answers X (issued w @ replicate 9 ?c) ?c [Stdout out]"
    using again_busy_steps [OF a', of 0 "Suc fuel" False] by simp_all
  from r have "respond X (issued (w\<lparr>issued := issued w @ replicate 9 ?c\<rparr>)) ?c = Stdout out"
    by simp
  from again_success_once [OF this, of fuel "0 + int 9"]
  have "rbdUnmapVolume_again (9 + Suc fuel) X d ?v False 0 w =
        Some (None, w\<lparr>issued := issued w @ replicate 9 ?c @ [?c]\<rparr>)"
    using s by simp
  moreover have "replicate 9 ?c @ [?c] = replicate 10 ?c"
    by (simp only: replicate_snoc_same) simp
  moreover have "9 + Suc fuel = 10 + fuel" by simp
  ultimately show ?thesis
    by (simp only: rbdUnmapVolume_def unmap_of_def)
qed

lemma unmap_nine_busy_success_EINVAL:
  assumes a: "answers X (issued w) (unmap_of X d vol) (replicate 9 (Exit 16) @ [Stdout out, Exit 22])"
  shows "rbdUnmapVolume (11 + fuel) X d vol True w =
         Some (None, w\<lparr>issued := issued w @ replicate 11 (unmap_of X d vol)\<rparr>)"
proof -
  let ?v = "getRBDVolumeName X d vol '''' False"
  let ?c = "unmap_cmd d ?v"
  let ?w9 = "w\<lparr>issued := issued w @ replicate 9 ?c\<rparr>"
  let ?w10 = "w\<lparr>issued := issued w @ replicate 10 ?c\<rparr>"
  have a': "answers X (issued w) ?c (replicate 9 (Exit 16) @ [Stdout out, Exit 22])"
    using a by (simp only: unmap_of_def)
  have s: "rbdUnmapVolume_again (9 + Suc (Suc fuel)) X d ?v True 0 w =
           rbdUnmapVolume_again (Suc (Suc fuel)) X d ?v True (0 + int 9) ?w9"
    and r: "answers X (issued w @ replicate 9 ?c) ?c [Stdout out, Exit 22]"
    using again_busy_steps [OF a', of 0 "Suc (Suc fuel)" True] by simp_all
  have ten: "replicate 9 ?c @ [?c] = replicate 10 ?c"
    by (simp only: replicate_snoc_same) simp
  have eleven: "replicate 10 ?c @ [?c] = replicate 11 ?c"
    by (simp only: replicate_snoc_same) simp
  from r have r1: "respond X (issued ?w9) ?c = Stdout out"
    and r2: "respond X (issued ?w10) ?c = Exit 22"
    using ten by simp_all
  have w10: "?w9\<lparr>issued := issued ?w9 @ [?c]\<rparr> = ?w10"
    using ten by simp
  have w11: "?w10\<lparr>issued := issued ?w10 @ [?c]\<rparr> = w\<lparr>issued := issued w @ replicate 11 ?c\<rparr>"
    using eleven by simp
  have "rbdUnmapVolume_again (9 + Suc (Suc fuel)) X d ?v True 0 w =
        Some (None, w\<lparr>issued := issued w @ replicate 11 ?c\<rparr>)"
    using s again_success_repeat [OF r1, of "Suc fuel" "0 + int 9"]
      again_EINVAL [OF r2, of fuel True "0 + int 9"]
    unfolding w10 w11 by simp
  moreover have "9 + Suc (Suc fuel) = 11 + fuel" by simp
  ultimately show ?thesis
    by (simp only: rbdUnmapVolume_def unmap_of_def)
qed

lemma unmap_ten_busy:
  assumes a: "answers X (issued w) (unmap_of X d vol) (replicate 10 (Exit 16))"
  shows "rbdUnmapVolume (10 + fuel) X d vol u w =
         Some (Some (ExitError (unmap_of X d vol) 16),
               w\<lparr>issued := issued w @ replicate 10 (unmap_of X d vol)\<rparr>)"
proof -
  let ?v = "getRBDVolumeName X d vol '''' False"
  let ?c = "unmap_cmd d ?v"
  let ?w9 = "w\<lparr>issued := issued w @ replicate 9 ?c\<rparr>"
  have split: "replicate 10 (Exit 16) = replicate 9 (Exit 16) @ [Exit 16]"
    by (simp add: numeral_eq_Suc)
  have a': "answers X (issued w) ?c (replicate 9 (Exit 16) @ [Exit 16])"
    using a unfolding split by (simp only: unmap_of_def)
  have s: "rbdUnmapVolume_again (9 + Suc fuel) X d ?v u 0 w =
           rbdUnmapVolume_again (Suc fuel) X d ?v u (0 + int 9) ?w9"
    and r: "answers X (issued w @ replicate 9 ?c) ?c [Exit 16]"
    using again_busy_steps [OF a', of 0 "Suc fuel" u] by simp_all
  have ten: "replicate 9 ?c @ [?c] = replicate 10 ?c"
    by (simp only: replicate_snoc_same) simp
  from r have r1: "respond X (issued ?w9) ?c = Exit 16" by simp
  have w10: "?w9\<lparr>issued := issued ?w9 @ [?c]\<rparr> = w\<lparr>issued := issued w @ replicate 10 ?c\<rparr>"
    using ten by simp
  have "rbdUnmapVolume_again (9 + Suc fuel) X d ?v u 0 w =
        Some (Some (ExitError ?c 16), w\<lparr>issued := issued w @ replicate 10 ?c\<rparr>)"
    using s again_busy_last [OF r1, of fuel u] unfolding w10 by simp
  moreover have "9 + Suc fuel = 10 + fuel" by simp
  ultimately show ?thesis
    by (simp only: rbdUnmapVolume_def unmap_of_def)
qed

text \<open>
  Claim C6. When the unmap command is answered with the busy exit code (16) nine times and
  then with success, \<open>rbdUnmapVolume\<close> returns no error after ten commands; with
  \<open>unmapUntilEINVAL\<close> the loop goes on after the success, and returns no error once the
  eleventh command reports "already unmapped". When the command is answered with the busy
  exit code ten times, \<open>rbdUnmapVolume\<close> returns the error of the tenth command, and ten
  commands have been issued: there is no eleventh.
\<close>

theorem rbdUnmapVolume_busy_retry:
  "(answers X (issued w) (unmap_of X d vol) (replicate 9 (Exit 16) @ [Stdout out]) \<longrightarrow>
      rbdUnmapVolume (10 + fuel) X d vol False w =
        Some (None, w\<lparr>issued := issued w @ replicate 10 (unmap_of X d vol)\<rparr>)) \<and>
   (answers X (issued w) (unmap_of X d vol) (replicate 9 (Exit 16) @ [Stdout out, Exit 22]) \<longrightarrow>
      rbdUnmapVolume (11 + fuel) X d vol True w =
        Some (None, w\<lparr>issued := issued w @ replicate 11 (unmap_of X d vol)\<rparr>)) \<and>
   (answers X (issued w) (unmap_of X d vol) (replicate 10 (Exit 16)) \<longrightarrow>
      rbdUnmapVolume (10 + fuel) X d vol u w =
        Some (Some (ExitError (unmap_of X d vol) 16),
              w\<lparr>issued := issued w @ replicate 10 (unmap_of X d vol)\<rparr>))"
  using unmap_nine_busy_then_success unmap_nine_busy_success_EINVAL unmap_ten_busy
  by blast

theorem rbdUnmapVolume_busy_retry_witness:
  "rbdUnmapVolume 10 (ex_extern (busy_then 9 (Stdout ''''))) ex_ceph ex_vol False w0 =
     Some (None, w0\<lparr>issued := replicate 10
       (unmap_of (ex_extern (busy_then 9 (Stdout ''''))) ex_ceph ex_vol)\<rparr>) \<and>
   rbdUnmapVolume 11 (ex_extern (busy_then 9 (Stdout ''''))) ex_ceph ex_vol True w0 =
     Some (None, w0\<lparr>issued := replicate 11
       (unmap_of (ex_extern (busy_then 9 (Stdout ''''))) ex_ceph ex_vol)\<rparr>) \<and>
   rbdUnmapVolume 10 (ex_extern (busy_then 10 (Exit 16))) ex_ceph ex_vol True w0 =
     Some (Some (ExitError (unmap_of (ex_extern (busy_then 10 (Exit 16))) ex_ceph ex_vol) 16),
           w0\<lparr>issued := replicate 10
             (unmap_of (ex_extern (busy_then 10 (Exit 16))) ex_ceph ex_vol)\<rparr>)"
proof -
  let ?X = "ex_extern (busy_then 9 (Stdout ''''))"
  let ?Y = "ex_extern (busy_then 10 (Exit 16))"
  have h1: "answers ?X (issued w0) (unmap_of ?X ex_ceph ex_vol)
              (replicate 9 (Exit 16) @ [Stdout ''''])"
    by code_simp
  have h2: "answers ?X (issued w0) (unmap_of ?X ex_ceph ex_vol)
              (replicate 9 (Exit 16) @ [Stdout '''', Exit 22])"
    by code_simp
  have h3: "answers ?Y (issued w0) (unmap_of ?Y ex_ceph ex_vol) (replicate 10 (Exit 16))"
    by code_simp
  have e: "issued w0 = []" by (simp add: w0_def)
  show ?thesis
    using h1 h2 h3
      rbdUnmapVolume_busy_retry [of ?X w0 ex_ceph ex_vol "''''" 0 True]
      rbdUnmapVolume_busy_retry [of ?Y w0 ex_ceph ex_vol "''''" 0 True]
    unfolding e by simp
qed

lemma again_stacked:
  assumes st: "\<And>h. respond X h (unmap_cmd d v) =
                 (if count_list h (unmap_cmd d v) < m then Stdout out else Exit 22)"
  shows "m - count_list (issued w) (unmap_cmd d v) < fuel \<Longrightarrow>
         \<exists>w'. rbdUnmapVolume_again fuel X d v u b w = Some (None, w') \<and>
              count_list (issued w) (unmap_cmd d v) < count_list (issued w') (unmap_cmd d v)"
proof (induction fuel arbitrary: w)
  case 0
  then show ?case by simp
next
  case (Suc fuel)
  let ?c = "unmap_cmd d v"
  let ?w1 = "w\<lparr>issued := issued w @ [?c]\<rparr>"
  show ?case
  proof (cases "count_list (issued w) ?c < m")
    case False
    then have "respond X (issued w) ?c = Exit 22" by (simp add: st)
    from again_EINVAL [OF this, of fuel u b] show ?thesis by simp
  next
    case True
    then have r: "respond X (issued w) ?c = Stdout out" by (simp add: st)
    show ?thesis
    proof (cases u)
      case False
      with again_success_once [OF r, of fuel b] show ?thesis by simp
    next
      case u: True
      have "m - count_list (issued ?w1) ?c < fuel"
        using Suc.prems True by simp
      from Suc.IH [OF this] obtain w' where
        w': "rbdUnmapVolume_again fuel X d v u b ?w1 = Some (None, w')"
        "count_list (issued ?w1) ?c < count_list (issued w') ?c"
        by blast
      have "rbdUnmapVolume_again (Suc fuel) X d v u b w = Some (None, w')"
        using again_success_repeat [OF r, of fuel b] w'(1) u by simp
      moreover have "count_list (issued w) ?c < count_list (issued w') ?c"
        using w'(2) by simp
      ultimately show ?thesis by blast
    qed
  qed
qed

lemma unmap_twice:
  assumes st: "\<And>h. respond X h (unmap_of X d vol) =
                 (if count_list h (unmap_of X d vol) < m then Stdout out else Exit 22)"
    and fuel: "m < fuel"
  shows "\<exists>w1 w2. rbdUnmapVolume fuel X d vol u1 w = Some (None, w1) \<and>
                 rbdUnmapVolume fuel X d vol u2 w1 = Some (None, w2)"
proof -
  let ?v = "getRBDVolumeName X d vol '''' False"
  have st': "\<And>h. respond X h (unmap_cmd d ?v) =
                 (if count_list h (unmap_cmd d ?v) < m then Stdout out else Exit 22)"
    using st by (simp only: unmap_of_def)
  have f: "\<And>w. m - count_list (issued w) (unmap_cmd d ?v) < fuel"
    using fuel by arith
  from again_stacked [OF st' f, of u1 0 w] obtain w1 where
    "rbdUnmapVolume_again fuel X d ?v u1 0 w = Some (None, w1)" by blast
  moreover from again_stacked [OF st' f, of u2 0 w1] obtain w2 where
    "rbdUnmapVolume_again fuel X d ?v u2 0 w1 = Some (None, w2)" by blast
  ultimately show ?thesis
    by (auto simp only: rbdUnmapVolume_def)
qed

text \<open>
  Claim C7. An unmap command that exits with code 22 (EINVAL, already unmapped) makes
  \<open>rbdUnmapVolume\<close> return no error, whatever \<open>unmapUntilEINVAL\<close> is. On a backend
  where the volume is mapped \<open>m\<close> times and an unmap is answered with success while a
  mapping is left and with exit code 22 afterwards, two calls in a row both return no error.
\<close>

theorem rbdUnmapVolume_already_unmapped:
  "(answers X (issued w) (unmap_of X d vol) [Exit 22] \<longrightarrow>
      rbdUnmapVolume (Suc fuel) X d vol u w =
        Some (None, w\<lparr>issued := issued w @ [unmap_of X d vol]\<rparr>)) \<and>
   ((\<forall>h. respond X h (unmap_of X d vol) =
           (if count_list h (unmap_of X d vol) < m then Stdout out else Exit 22)) \<longrightarrow>
    m < fuel' \<longrightarrow>
      (\<exists>w1 w2. rbdUnmapVolume fuel' X d vol u1 w = Some (None, w1) \<and>
                rbdUnmapVolume fuel' X d vol u2 w1 = Some (None, w2)))"
proof (intro conjI impI)
  assume "answers X (issued w) (unmap_of X d vol) [Exit 22]"
  then have "respond X (issued w) (unmap_cmd d (getRBDVolumeName X d vol '''' False)) = Exit 22"
    by (simp add: unmap_of_def)
  from again_EINVAL [OF this, of fuel u 0]
  show "rbdUnmapVolume (Suc fuel) X d vol u w =
        Some (None, w\<lparr>issued := issued w @ [unmap_of X d vol]\<rparr>)"
    by (simp only: rbdUnmapVolume_def unmap_of_def)
next
  assume "\<forall>h. respond X h (unmap_of X d vol) =
           (if count_list h (unmap_of X d vol) < m then Stdout out else Exit 22)"
     and "m < fuel'"
  then show "\<exists>w1 w2. rbdUnmapVolume fuel' X d vol u1 w = Some (None, w1) \<and>
                rbdUnmapVolume fuel' X d vol u2 w1 = Some (None, w2)"
    using unmap_twice [of X d vol m out fuel' u1 w u2] by blast
qed

theorem rbdUnmapVolume_already_unmapped_witness:
  "rbdUnmapVolume 1 (ex_extern (stacked 0)) ex_ceph ex_vol True w0 =
     Some (None, w0\<lparr>issued := [unmap_of (ex_extern (stacked 0)) ex_ceph ex_vol]\<rparr>) \<and>
   (\<exists>w1 w2. rbdUnmapVolume 3 (ex_extern (stacked 2)) ex_ceph ex_vol True w0 = Some (None, w1) \<and>
             rbdUnmapVolume 3 (ex_extern (stacked 2)) ex_ceph ex_vol False w1 = Some (None, w2))"
proof -
  let ?X = "ex_extern (stacked 0)"
  let ?Y = "ex_extern (stacked 2)"
  have h1: "answers ?X (issued w0) (unmap_of ?X ex_ceph ex_vol) [Exit 22]"
    by (simp add: ex_extern_def stacked_def)
  have h2: "\<forall>h. respond ?Y h (unmap_of ?Y ex_ceph ex_vol) =
              (if count_list h (unmap_of ?Y ex_ceph ex_vol) < 2 then Stdout '''' else Exit 22)"
    by (simp add: ex_extern_def stacked_def)
  have h3: "(2::nat) < 3" by simp
  have e: "issued w0 = []" by (simp add: w0_def)
  show ?thesis
    using h1 h2 h3
      rbdUnmapVolume_already_unmapped [of ?X w0 ex_ceph ex_vol 0 True]
      rbdUnmapVolume_already_unmapped [of ?Y w0 ex_ceph ex_vol _ _ 2 "''''" 3 True False]
    unfolding e by simp
qed
section \<open>Decoding backend names: failures\<close>

lemma HasPrefix_iff: "HasPrefix s p = (\<exists>t. s = p @ t)"
  unfolding HasPrefix_def by (metis append_take_drop_id append_eq_conv_conj)

lemma split_first_absent: "c \<notin> set s \<Longrightarrow> split_first [c] s = None"
  by (induction s) (auto simp: HasPrefix_def)

lemma split_first_at: "c \<notin> set p \<Longrightarrow> split_first [c] (p @ c # r) = Some (p, r)"
  by (induction p) (auto simp: HasPrefix_def)

lemma SplitN2_absent: "c \<notin> set s \<Longrightarrow> SplitN2 [c] s = [s]"
  by (simp add: SplitN2_def split_first_absent)

lemma SplitN2_at: "c \<notin> set p \<Longrightarrow> SplitN2 [c] (p @ c # r) = [p, r]"
  by (simp add: SplitN2_def split_first_at)

lemma parseParent_no_delimiter:
  "CHR ''/'' \<notin> set s \<Longrightarrow> parseParent s = Inl PoolDelimiterNotFound"
  by (simp add: parseParent_def SplitN2_absent)

lemma parseClone_no_delimiter:
  "CHR ''/'' \<notin> set s \<Longrightarrow> parseClone s = Inl PoolDelimiterNotFound"
  by (simp add: parseClone_def SplitN2_absent)

lemma no_type_prefix:
  assumes "\<not> has_type_prefix s"
  shows "\<not> HasPrefix s ''image_''" "\<not> HasPrefix s ''zombie_image_''"
        "\<not> HasPrefix s ''custom_''" "\<not> HasPrefix s ''zombie_custom_''"
        "\<not> HasPrefix s ''container_''" "\<not> HasPrefix s ''zombie_container_''"
        "\<not> HasPrefix s ''virtual-machine_''" "\<not> HasPrefix s ''zombie_virtual-machine_''"
  using assms
  by (auto simp: has_type_prefix_def TrimPrefix_def Let_def HasPrefix_iff split: if_splits)

lemma parseParent_unrecognized:
  assumes "CHR ''/'' \<notin> set p" and "\<not> has_type_prefix r"
  shows "parseParent (p @ ''/'' @ r) = Inl (UnrecognizedParent (p @ ''/'' @ r))"
  using assms(1) no_type_prefix [OF assms(2)]
  by (simp add: parseParent_def SplitN2_at)

lemma cut_unique:
  "c \<notin> set a \<Longrightarrow> c \<notin> set b \<Longrightarrow> a @ c # x = b @ c # y \<Longrightarrow> a = b"
proof (induction a arbitrary: b)
  case Nil
  then show ?case by (cases b) auto
next
  case (Cons h a)
  then show ?case by (cases b) auto
qed

lemma parseClone_decoded:
  assumes "CHR ''/'' \<notin> set p" and "CHR ''_'' \<notin> set t"
    and "TrimPrefix r ''zombie_'' = t @ ''_'' @ n"
  shows "parseClone (p @ ''/'' @ r) = Inr (p, t, n, HasPrefix r ''zombie_'')"
proof -
  have "SplitN2 ''/'' (p @ ''/'' @ r) = [p, r]"
    using assms(1) by (simp add: SplitN2_at)
  moreover have "SplitN2 ''_'' (TrimPrefix r ''zombie_'') = [t, n]"
    using assms(2) by (simp add: assms(3) SplitN2_at)
  ultimately show ?thesis
    by (simp add: parseClone_def)
qed

lemma parseClone_no_underscore:
  assumes "CHR ''/'' \<notin> set p" and "CHR ''_'' \<notin> set (TrimPrefix r ''zombie_'')"
  shows "parseClone (p @ ''/'' @ r) = Inl UnexpectedParsingError"
proof -
  have "SplitN2 ''/'' (p @ ''/'' @ r) = [p, r]"
    using assms(1) by (simp add: SplitN2_at)
  moreover have "SplitN2 ''_'' (TrimPrefix r ''zombie_'') = [TrimPrefix r ''zombie_'']"
    using assms(2) by (simp add: SplitN2_absent)
  ultimately show ?thesis
    by (simp add: parseClone_def)
qed

text \<open>
  Claim C8, as amended. A string without the pool delimiter \<open>/\<close> makes both \<open>parseParent\<close>
  and \<open>parseClone\<close> fail with "Pool delimiter not found". When the name after the pool has,
  with an optional \<open>zombie_\<close> prefix stripped, none of the four type prefixes,
  \<open>parseParent\<close> fails with "Unrecognized parent". \<open>parseClone\<close> does not look at the type:
  with one leading \<open>zombie_\<close> stripped from the name after the pool, whatever precedes the
  first underscore is returned as the type and what follows it as the name, with the flag
  telling whether \<open>zombie_\<close> was there; it fails, with "Unexpected parsing error", exactly when
  no underscore is left.
\<close>

theorem decode_failures:
  "(CHR ''/'' \<notin> set s \<longrightarrow>
      parseParent s = Inl PoolDelimiterNotFound \<and> parseClone s = Inl PoolDelimiterNotFound) \<and>
   (CHR ''/'' \<notin> set p \<longrightarrow> \<not> has_type_prefix r \<longrightarrow>
      parseParent (p @ ''/'' @ r) = Inl (UnrecognizedParent (p @ ''/'' @ r))) \<and>
   (CHR ''/'' \<notin> set p \<longrightarrow> CHR ''_'' \<notin> set t \<longrightarrow> TrimPrefix r ''zombie_'' = t @ ''_'' @ n \<longrightarrow>
      parseClone (p @ ''/'' @ r) = Inr (p, t, n, HasPrefix r ''zombie_'')) \<and>
   (CHR ''/'' \<notin> set p \<longrightarrow> CHR ''_'' \<notin> set (TrimPrefix r ''zombie_'') \<longrightarrow>
      parseClone (p @ ''/'' @ r) = Inl UnexpectedParsingError)"
  using parseParent_no_delimiter parseClone_no_delimiter parseParent_unrecognized
    parseClone_decoded parseClone_no_underscore by blast

theorem decode_failures_witness:
  "parseParent ''container_c1'' = Inl PoolDelimiterNotFound \<and>
   parseClone ''container_c1'' = Inl PoolDelimiterNotFound \<and>
   parseParent ''rbd/bogus_x'' = Inl (UnrecognizedParent ''rbd/bogus_x'') \<and>
   parseClone ''rbd/bogus_x'' = Inr (''rbd'', ''bogus'', ''x'', False) \<and>
   parseClone ''rbd/zombie_container_c2'' = Inr (''rbd'', ''container'', ''c2'', True) \<and>
   parseClone ''rbd/zombie_bogus'' = Inl UnexpectedParsingError"
proof -
  have h1: "CHR ''/'' \<notin> set ''container_c1''" by simp
  have h2: "CHR ''/'' \<notin> set ''rbd''" by simp
  have h3: "\<not> has_type_prefix ''bogus_x''" by code_simp
  have h4: "CHR ''_'' \<notin> set ''bogus''" by simp
  have h5: "TrimPrefix ''bogus_x'' ''zombie_'' = ''bogus'' @ ''_'' @ ''x''" by code_simp
  have h6: "HasPrefix ''bogus_x'' ''zombie_'' = False" by code_simp
  have h7: "CHR ''_'' \<notin> set ''container''" by simp
  have h8: "TrimPrefix ''zombie_container_c2'' ''zombie_'' = ''container'' @ ''_'' @ ''c2''"
    by code_simp
  have h9: "HasPrefix ''zombie_container_c2'' ''zombie_'' = True" by code_simp
  have h10: "CHR ''_'' \<notin> set (TrimPrefix ''zombie_bogus'' ''zombie_'')" by code_simp
  have a: "parseParent ''container_c1'' = Inl PoolDelimiterNotFound \<and>
           parseClone ''container_c1'' = Inl PoolDelimiterNotFound"
    using h1 decode_failures [of "''container_c1''" "''rbd''" "''bogus_x''" "''bogus''" "''x''"]
    by simp
  have b: "parseParent ''rbd/bogus_x'' = Inl (UnrecognizedParent ''rbd/bogus_x'') \<and>
           parseClone ''rbd/bogus_x'' = Inr (''rbd'', ''bogus'', ''x'', False)"
    using h2 h3 h4 h5 h6
      decode_failures [of "''container_c1''" "''rbd''" "''bogus_x''" "''bogus''" "''x''"]
    by simp
  have c: "parseClone ''rbd/zombie_container_c2'' = Inr (''rbd'', ''container'', ''c2'', True)"
    using h2 h7 h8 h9
      decode_failures [of "''container_c1''" "''rbd''" "''zombie_container_c2''"
                          "''container''" "''c2''"]
    by simp
  have d: "parseClone ''rbd/zombie_bogus'' = Inl UnexpectedParsingError"
    using h2 h10
      decode_failures [of "''container_c1''" "''rbd''" "''zombie_bogus''" "''bogus''" "''x''"]
    by simp
  from a b c d show ?thesis by simp
qed

text \<open>
  Claim C8 as stated fails for \<open>parseClone\<close>: a name whose type is none of the four is
  decoded without an error.
\<close>

theorem parseClone_unknown_type_counterexample:
  "\<not> has_type_prefix ''bogus_x'' \<and>
   parseClone ''rbd/bogus_x'' = Inr (''rbd'', ''bogus'', ''x'', False)"
  by code_simp
section \<open>The deletion engine: what each path returns\<close>

lemma deleteVolume_Suc:
  "deleteVolume (Suc n) X d vol w = deleteVolume_body (deleteVolumeSnapshot n X d) n X d vol w"
  by (simp add: deleteVolume_def deleteVolumeSnapshot_def)

lemma deleteVolumeSnapshot_Suc:
  "deleteVolumeSnapshot (Suc n) X d vol sn w =
   deleteVolumeSnapshot_body (deleteVolume n X d) n X d vol sn w"
  by (simp add: deleteVolume_def deleteVolumeSnapshot_def)


lemma again_issues_unmaps:
  "rbdUnmapVolume_again fuel X d v u b w = Some (r, w') \<Longrightarrow>
   \<exists>k. w' = w\<lparr>issued := issued w @ replicate k (unmap_cmd d v)\<rparr>"
proof (induction fuel arbitrary: b w)
  case 0
  then show ?case by simp
next
  case (Suc fuel)
  let ?c = "unmap_cmd d v"
  let ?w1 = "w\<lparr>issued := issued w @ [?c]\<rparr>"
  have one: "?w1 = w\<lparr>issued := issued w @ replicate 1 ?c\<rparr>" by simp
  have more: "\<And>k. ?w1\<lparr>issued := issued ?w1 @ replicate k ?c\<rparr> =
                    w\<lparr>issued := issued w @ replicate (Suc k) ?c\<rparr>"
    by simp
  from Suc.prems consider
      (stop) "w' = ?w1"
    | (again) b' where "rbdUnmapVolume_again fuel X d v u b' ?w1 = Some (r, w')"
    by (auto simp: RunCommand_def split: outcome.splits if_splits)
  then show ?case
  proof cases
    case stop
    with one show ?thesis by blast
  next
    case again
    from Suc.IH [OF again] obtain k where
      "w' = ?w1\<lparr>issued := issued ?w1 @ replicate k ?c\<rparr>" by blast
    with more show ?thesis by blast
  qed
qed

lemma rbdUnmapVolume_issues_unmaps:
  "rbdUnmapVolume fuel X d vol u w = Some (r, w') \<Longrightarrow>
   \<exists>k. w' = w\<lparr>issued := issued w @ replicate k (unmap_of X d vol)\<rparr>"
  unfolding rbdUnmapVolume_def unmap_of_def by (rule again_issues_unmaps)

lemma run_plain_issued:
  "run_plain X c w = (r, w') \<Longrightarrow> w' = w\<lparr>issued := issued w @ [c]\<rparr>"
  by (auto simp: run_plain_def RunCommand_def split: outcome.splits)


lemma mv_not_rm: "rbd_args d @ [''mv'', a, b] \<noteq> rm_cmd X d vol'"
  by (simp add: rm_cmd_def rbd_pool_args_def rbd_args_def)










lemma map_option_fst_SomeD: "map_option fst x = Some a \<Longrightarrow> \<exists>b. x = Some (a, b)"
  by (cases x) auto


lemma rbdListVolumeSnapshots_issued:
  "rbdListVolumeSnapshots X d vol w = (r, w') \<Longrightarrow>
   w' = w\<lparr>issued := issued w @ [snap_ls_cmd X d vol]\<rparr>"
  by (auto simp: rbdListVolumeSnapshots_def RunCommand_def
           split: outcome.splits option.splits sum.splits if_splits)

lemma rbdGetVolumeParent_issued:
  "rbdGetVolumeParent X d vol w = (r, w') \<Longrightarrow>
   w' = w\<lparr>issued := issued w @ [info_cmd X d vol]\<rparr>"
  by (auto simp: rbdGetVolumeParent_def RunCommand_def
           split: outcome.splits option.splits)

lemma clone_path_commands:
  assumes ls: "rbdListVolumeSnapshots X d vol w = (Inl err, w1)"
    and par: "rbdGetVolumeParent X d vol w1 = (Inr parent, w2)"
    and um: "rbdUnmapVolume n X d vol True w2 = Some (None, w3)"
    and rm: "rbdDeleteVolume X d vol w3 = (None, w4)"
  shows "\<exists>k. issued w4 = issued w @ [snap_ls_cmd X d vol, info_cmd X d vol] @
                 replicate k (unmap_of X d vol) @ [rm_cmd X d vol]"
proof -
  from rbdUnmapVolume_issues_unmaps [OF um] obtain k where
    w3: "w3 = w2\<lparr>issued := issued w2 @ replicate k (unmap_of X d vol)\<rparr>" by blast
  have w4: "w4 = w3\<lparr>issued := issued w3 @ [rm_cmd X d vol]\<rparr>"
    using rm run_plain_issued [of X "rm_cmd X d vol" w3 None w4]
    by (simp add: rbdDeleteVolume_def rm_cmd_def)
  have "issued w4 = issued w @ [snap_ls_cmd X d vol, info_cmd X d vol] @
          replicate k (unmap_of X d vol) @ [rm_cmd X d vol]"
    using rbdListVolumeSnapshots_issued [OF ls] rbdGetVolumeParent_issued [OF par] w3 w4
    by simp
  then show ?thesis by blast
qed

section \<open>Deleting a volume that has snapshots\<close>



text \<open>
  Claim C5. The snapshot listing reports "not found", the volume has a parent and the
  parent's name decodes; unmapping and deleting the volume succeed. The commands issued up
  to there are the snapshot listing, \<open>rbd info\<close>, the unmaps and \<open>rbd rm\<close>, all of them on
  the volume itself. When the parent volume is not a zombie and
  the parent snapshot's name does not start with \<open>zombie_\<close>, \<open>deleteVolume\<close> returns 0 in
  that very state: nothing is attempted on the parent. Otherwise \<open>deleteVolume\<close> goes on
  with \<open>deleteVolumeSnapshot\<close> on the parent, and returns its failure or 0.
\<close>

theorem deleteVolume_clone_without_snapshots:
  assumes ls: "rbdListVolumeSnapshots X d vol w = (Inl err, w1)"
    and nf: "IsNotFoundError err"
    and par: "rbdGetVolumeParent X d vol w1 = (Inr parent, w2)"
    and pp: "parseParent parent = Inr (parentVol, parentSnapshotName)"
    and um: "rbdUnmapVolume n X d vol True w2 = Some (None, w3)"
    and rm: "rbdDeleteVolume X d vol w3 = (None, w4)"
  shows "(\<exists>k. issued w4 = issued w @ [snap_ls_cmd X d vol, info_cmd X d vol] @
                 replicate k (unmap_of X d vol) @ [rm_cmd X d vol]) \<and>
         (\<not> isDeleted parentVol \<and> \<not> HasPrefix parentSnapshotName ''zombie_'' \<longrightarrow>
            deleteVolume (Suc n) X d vol w = Some ((0, None), w4)) \<and>
         (isDeleted parentVol \<or> HasPrefix parentSnapshotName ''zombie_'' \<longrightarrow>
            deleteVolume (Suc n) X d vol w =
              (case deleteVolumeSnapshot n X d parentVol parentSnapshotName w4 of
                 None \<Rightarrow> None
               | Some ((ret, e), w5) \<Rightarrow>
                   if ret < 0 then Some ((- 1, e), w5) else Some ((0, None), w5)))"
proof (intro conjI impI)
  show "\<exists>k. issued w4 = issued w @ [snap_ls_cmd X d vol, info_cmd X d vol] @
               replicate k (unmap_of X d vol) @ [rm_cmd X d vol]"
    by (rule clone_path_commands [OF ls par um rm])
next
  assume "\<not> isDeleted parentVol \<and> \<not> HasPrefix parentSnapshotName ''zombie_''"
  then show "deleteVolume (Suc n) X d vol w = Some ((0, None), w4)"
    using ls nf par pp um rm by (simp add: deleteVolume_Suc deleteVolume_body_def)
next
  assume "isDeleted parentVol \<or> HasPrefix parentSnapshotName ''zombie_''"
  then show "deleteVolume (Suc n) X d vol w =
              (case deleteVolumeSnapshot n X d parentVol parentSnapshotName w4 of
                 None \<Rightarrow> None
               | Some ((ret, e), w5) \<Rightarrow>
                   if ret < 0 then Some ((- 1, e), w5) else Some ((0, None), w5))"
    using ls nf par pp um rm by (simp add: deleteVolume_Suc deleteVolume_body_def)
qed



theorem deleteVolume_clone_without_snapshots_witness:
  "(\<exists>w'. deleteVolume 4 (ex_extern (backend_D ''rbd/container_c1@snapshot_snap0'')) ex_ceph
            ex_clone w0 = Some ((0, None), w') \<and>
          last (issued w') = rm_cmd (ex_extern (backend_D ''rbd/container_c1@snapshot_snap0''))
                               ex_ceph ex_clone) \<and>
   (\<exists>w'. deleteVolume 4 (ex_extern (backend_D ''rbd/container_c1@zombie_snapshot_u1'')) ex_ceph
            ex_clone w0 = Some ((0, None), w'))"
proof -
  let ?X = "ex_extern (backend_D ''rbd/container_c1@snapshot_snap0'')"
  let ?Y = "ex_extern (backend_D ''rbd/container_c1@zombie_snapshot_u1'')"
  let ?nf = "StatusError 404 ''Ceph RBD volume snapshot(s) not found''"
  let ?pv = "\<lparr>pool = ''rbd'', volType = ''container'', contentType = ContentTypeFS,
              name = ''c1'', config = [], poolConfig = [], isDeleted = False\<rparr>"
  have nf: "IsNotFoundError ?nf" by simp
  \<comment> \<open>the parent is live\<close>
  let ?a1 = "snd (rbdListVolumeSnapshots ?X ex_ceph ex_clone w0)"
  let ?a2 = "snd (rbdGetVolumeParent ?X ex_ceph ex_clone ?a1)"
  let ?a3 = "snd (the (rbdUnmapVolume 3 ?X ex_ceph ex_clone True ?a2))"
  let ?a4 = "snd (rbdDeleteVolume ?X ex_ceph ex_clone ?a3)"
  have a1: "rbdListVolumeSnapshots ?X ex_ceph ex_clone w0 = (Inl ?nf, ?a1)" by code_simp
  have a2: "rbdGetVolumeParent ?X ex_ceph ex_clone ?a1 =
            (Inr ''rbd/container_c1@snapshot_snap0'', ?a2)" by code_simp
  have ap: "parseParent ''rbd/container_c1@snapshot_snap0'' = Inr (?pv, ''snapshot_snap0'')"
    by code_simp
  have a3: "rbdUnmapVolume 3 ?X ex_ceph ex_clone True ?a2 = Some (None, ?a3)" by code_simp
  have a4: "rbdDeleteVolume ?X ex_ceph ex_clone ?a3 = (None, ?a4)" by code_simp
  have live: "\<not> isDeleted ?pv \<and> \<not> HasPrefix ''snapshot_snap0'' ''zombie_''" by code_simp
  note thm_a = deleteVolume_clone_without_snapshots [OF a1 nf a2 ap a3 a4]
  have A: "deleteVolume (Suc 3) ?X ex_ceph ex_clone w0 = Some ((0, None), ?a4)"
    by (rule thm_a [THEN conjunct2, THEN conjunct1, rule_format, OF live])
  have A': "\<exists>k. issued ?a4 = issued w0 @ [snap_ls_cmd ?X ex_ceph ex_clone,
                 info_cmd ?X ex_ceph ex_clone] @
               replicate k (unmap_of ?X ex_ceph ex_clone) @ [rm_cmd ?X ex_ceph ex_clone]"
    by (rule thm_a [THEN conjunct1])
  \<comment> \<open>the parent snapshot is a zombie\<close>
  let ?b1 = "snd (rbdListVolumeSnapshots ?Y ex_ceph ex_clone w0)"
  let ?b2 = "snd (rbdGetVolumeParent ?Y ex_ceph ex_clone ?b1)"
  let ?b3 = "snd (the (rbdUnmapVolume 3 ?Y ex_ceph ex_clone True ?b2))"
  let ?b4 = "snd (rbdDeleteVolume ?Y ex_ceph ex_clone ?b3)"
  have b1: "rbdListVolumeSnapshots ?Y ex_ceph ex_clone w0 = (Inl ?nf, ?b1)" by code_simp
  have b2: "rbdGetVolumeParent ?Y ex_ceph ex_clone ?b1 =
            (Inr ''rbd/container_c1@zombie_snapshot_u1'', ?b2)" by code_simp
  have bp: "parseParent ''rbd/container_c1@zombie_snapshot_u1'' =
            Inr (?pv, ''zombie_snapshot_u1'')"
    by code_simp
  have b3: "rbdUnmapVolume 3 ?Y ex_ceph ex_clone True ?b2 = Some (None, ?b3)" by code_simp
  have b4: "rbdDeleteVolume ?Y ex_ceph ex_clone ?b3 = (None, ?b4)" by code_simp
  have zs: "isDeleted ?pv \<or> HasPrefix ''zombie_snapshot_u1'' ''zombie_''" by code_simp
  have "map_option fst (deleteVolumeSnapshot 3 ?Y ex_ceph ?pv ''zombie_snapshot_u1'' ?b4) =
        Some (0, None)" by code_simp
  then obtain w5 where
    b5: "deleteVolumeSnapshot 3 ?Y ex_ceph ?pv ''zombie_snapshot_u1'' ?b4 = Some ((0, None), w5)"
    by (rule map_option_fst_SomeD [THEN exE])
  have "deleteVolume (Suc 3) ?Y ex_ceph ex_clone w0 =
        (case deleteVolumeSnapshot 3 ?Y ex_ceph ?pv ''zombie_snapshot_u1'' ?b4 of
           None \<Rightarrow> None
         | Some ((ret, e), w5) \<Rightarrow>
             if ret < 0 then Some ((- 1, e), w5) else Some ((0, None), w5))"
    by (rule deleteVolume_clone_without_snapshots [OF b1 nf b2 bp b3 b4, THEN conjunct2,
          THEN conjunct2, rule_format, OF zs])
  then have B: "deleteVolume (Suc 3) ?Y ex_ceph ex_clone w0 = Some ((0, None), w5)"
    by (simp only: b5 option.case prod.case) simp
  have four: "(4::nat) = Suc 3" by simp
  from A' obtain k where "issued ?a4 = (issued w0 @ [snap_ls_cmd ?X ex_ceph ex_clone,
                 info_cmd ?X ex_ceph ex_clone] @
               replicate k (unmap_of ?X ex_ceph ex_clone)) @ [rm_cmd ?X ex_ceph ex_clone]"
    by auto
  then have L: "last (issued ?a4) = rm_cmd ?X ex_ceph ex_clone"
    by (simp only: last_snoc)
  show ?thesis
    unfolding four by (intro conjI exI [of _ ?a4] exI [of _ w5] A B L)
qed

text \<open>
  Claim C2, as amended. The clone listing reports "not found" and unprotecting, unmapping
  and deleting the snapshot succeed. When the owning volume is not a zombie,
  \<open>deleteVolumeSnapshot\<close> returns 0. When it is a zombie, \<open>deleteVolume\<close> is called on
  it: a result of 0 or 1 of that call leaves the snapshot's result at 0, and a
  failure of that call is the result of \<open>deleteVolumeSnapshot\<close>, \<open>-1\<close> with the error.
\<close>

theorem deleteVolumeSnapshot_without_clones:
  assumes ls: "rbdListSnapshotClones X d vol snapshotName w = (Inl err, w1)"
    and nf: "IsNotFoundError err"
    and up: "rbdUnprotectVolumeSnapshot X d vol snapshotName w1 = (None, w2)"
    and um: "rbdUnmapVolumeSnapshot n X d vol snapshotName True w2 = Some (None, w3)"
    and rm: "rbdDeleteVolumeSnapshot X d vol snapshotName w3 = (None, w4)"
  shows "(\<not> isDeleted vol \<longrightarrow>
            deleteVolumeSnapshot (Suc n) X d vol snapshotName w = Some ((0, None), w4)) \<and>
         (isDeleted vol \<longrightarrow> deleteVolume n X d vol w4 = Some ((ret, e), w5) \<longrightarrow>
            deleteVolumeSnapshot (Suc n) X d vol snapshotName w =
              (if ret < 0 then Some ((- 1, e), w5) else Some ((0, None), w5)))"
  using ls nf up um rm
  by (simp add: deleteVolumeSnapshot_Suc deleteVolumeSnapshot_body_def)


theorem deleteVolumeSnapshot_without_clones_witness:
  "(\<exists>w'. deleteVolumeSnapshot 3 (ex_extern backend_B) ex_ceph ex_vol ''snapshot_snap0'' w0 =
          Some ((0, None), w')) \<and>
   (\<exists>e w'. deleteVolumeSnapshot 3 (ex_extern backend_B) ex_ceph ex_zombie_vol
             ''snapshot_snap0'' w0 = Some ((- 1, e), w')) \<and>
   (\<exists>w'. deleteVolumeSnapshot 5 (ex_extern (backend_D ''none'')) ex_ceph ex_zombie_vol
             ''snapshot_snap0'' w0 = Some ((0, None), w'))"
proof -
  let ?X = "ex_extern backend_B" and ?Y = "ex_extern (backend_D ''none'')"
  let ?s = "''snapshot_snap0''"
  let ?nf = "StatusError 404 ''Ceph RBD volume snapshot not found''"
  have nf: "IsNotFoundError ?nf" by simp
  \<comment> \<open>a live volume\<close>
  let ?a1 = "snd (rbdListSnapshotClones ?X ex_ceph ex_vol ?s w0)"
  let ?a2 = "snd (rbdUnprotectVolumeSnapshot ?X ex_ceph ex_vol ?s ?a1)"
  let ?a3 = "snd (the (rbdUnmapVolumeSnapshot 2 ?X ex_ceph ex_vol ?s True ?a2))"
  let ?a4 = "snd (rbdDeleteVolumeSnapshot ?X ex_ceph ex_vol ?s ?a3)"
  have a1: "rbdListSnapshotClones ?X ex_ceph ex_vol ?s w0 = (Inl ?nf, ?a1)" by code_simp
  have a2: "rbdUnprotectVolumeSnapshot ?X ex_ceph ex_vol ?s ?a1 = (None, ?a2)" by code_simp
  have a3: "rbdUnmapVolumeSnapshot 2 ?X ex_ceph ex_vol ?s True ?a2 = Some (None, ?a3)"
    by code_simp
  have a4: "rbdDeleteVolumeSnapshot ?X ex_ceph ex_vol ?s ?a3 = (None, ?a4)" by code_simp
  have a5: "\<not> isDeleted ex_vol" by code_simp
  \<comment> \<open>a zombie volume whose own deletion fails\<close>
  let ?b1 = "snd (rbdListSnapshotClones ?X ex_ceph ex_zombie_vol ?s w0)"
  let ?b2 = "snd (rbdUnprotectVolumeSnapshot ?X ex_ceph ex_zombie_vol ?s ?b1)"
  let ?b3 = "snd (the (rbdUnmapVolumeSnapshot 2 ?X ex_ceph ex_zombie_vol ?s True ?b2))"
  let ?b4 = "snd (rbdDeleteVolumeSnapshot ?X ex_ceph ex_zombie_vol ?s ?b3)"
  let ?be = "snd (fst (the (deleteVolume 2 ?X ex_ceph ex_zombie_vol ?b4)))"
  let ?b5 = "snd (the (deleteVolume 2 ?X ex_ceph ex_zombie_vol ?b4))"
  have b1: "rbdListSnapshotClones ?X ex_ceph ex_zombie_vol ?s w0 = (Inl ?nf, ?b1)"
    by code_simp
  have b2: "rbdUnprotectVolumeSnapshot ?X ex_ceph ex_zombie_vol ?s ?b1 = (None, ?b2)"
    by code_simp
  have b3: "rbdUnmapVolumeSnapshot 2 ?X ex_ceph ex_zombie_vol ?s True ?b2 = Some (None, ?b3)"
    by code_simp
  have b4: "rbdDeleteVolumeSnapshot ?X ex_ceph ex_zombie_vol ?s ?b3 = (None, ?b4)"
    by code_simp
  have b5: "isDeleted ex_zombie_vol" by code_simp
  have b6: "deleteVolume 2 ?X ex_ceph ex_zombie_vol ?b4 = Some ((- 1, ?be), ?b5)"
    by code_simp
  \<comment> \<open>a zombie volume whose own deletion succeeds\<close>
  let ?c1 = "snd (rbdListSnapshotClones ?Y ex_ceph ex_zombie_vol ?s w0)"
  let ?c2 = "snd (rbdUnprotectVolumeSnapshot ?Y ex_ceph ex_zombie_vol ?s ?c1)"
  let ?c3 = "snd (the (rbdUnmapVolumeSnapshot 4 ?Y ex_ceph ex_zombie_vol ?s True ?c2))"
  let ?c4 = "snd (rbdDeleteVolumeSnapshot ?Y ex_ceph ex_zombie_vol ?s ?c3)"
  let ?c5 = "snd (the (deleteVolume 4 ?Y ex_ceph ex_zombie_vol ?c4))"
  have c1: "rbdListSnapshotClones ?Y ex_ceph ex_zombie_vol ?s w0 = (Inl ?nf, ?c1)"
    by code_simp
  have c2: "rbdUnprotectVolumeSnapshot ?Y ex_ceph ex_zombie_vol ?s ?c1 = (None, ?c2)"
    by code_simp
  have c3: "rbdUnmapVolumeSnapshot 4 ?Y ex_ceph ex_zombie_vol ?s True ?c2 = Some (None, ?c3)"
    by code_simp
  have c4: "rbdDeleteVolumeSnapshot ?Y ex_ceph ex_zombie_vol ?s ?c3 = (None, ?c4)"
    by code_simp
  have c6: "deleteVolume 4 ?Y ex_ceph ex_zombie_vol ?c4 = Some ((0, None), ?c5)"
    by code_simp
  have A: "deleteVolumeSnapshot (Suc 2) ?X ex_ceph ex_vol ?s w0 = Some ((0, None), ?a4)"
    using deleteVolumeSnapshot_without_clones [OF a1 nf a2 a3 a4] a5 by blast
  have "deleteVolumeSnapshot (Suc 2) ?X ex_ceph ex_zombie_vol ?s w0 =
        (if (- 1::int) < 0 then Some ((- 1, ?be), ?b5) else Some ((0, None), ?b5))"
    using deleteVolumeSnapshot_without_clones [OF b1 nf b2 b3 b4, of "- 1" ?be ?b5] b5 b6
    by blast
  then have B: "deleteVolumeSnapshot (Suc 2) ?X ex_ceph ex_zombie_vol ?s w0 =
                Some ((- 1, ?be), ?b5)"
    by simp
  have "deleteVolumeSnapshot (Suc 4) ?Y ex_ceph ex_zombie_vol ?s w0 =
        (if (0::int) < 0 then Some ((- 1, None), ?c5) else Some ((0, None), ?c5))"
    using deleteVolumeSnapshot_without_clones [OF c1 nf c2 c3 c4, of 0 None ?c5] b5 c6
    by blast
  then have C: "deleteVolumeSnapshot (Suc 4) ?Y ex_ceph ex_zombie_vol ?s w0 =
                Some ((0, None), ?c5)"
    by simp
  have three: "(3::nat) = Suc 2" and five: "(5::nat) = Suc 4" by simp_all
  show ?thesis
    unfolding three five using A B C by blast
qed

text \<open>
  Claim C2 as stated fails: on backend B the snapshot of the zombie volume has no clone
  and is unprotected, unmapped and deleted; the cascade \<open>deleteVolume\<close> on the volume
  fails (its snapshot listing exits with code 1), and \<open>deleteVolumeSnapshot\<close> returns
  \<open>-1\<close> with that error, not 0.
\<close>

theorem deleteVolumeSnapshot_cascade_failure_counterexample:
  "fst (rbdListSnapshotClones (ex_extern backend_B) ex_ceph ex_zombie_vol ''snapshot_snap0'' w0) =
     Inl (StatusError 404 ''Ceph RBD volume snapshot not found'') \<and>
   deleteVolumeSnapshot 3 (ex_extern backend_B) ex_ceph ex_zombie_vol ''snapshot_snap0'' w0 =
     Some ((- 1, Some (ExitError
              [''rbd'', ''--id'', ''admin'', ''--cluster'', ''ceph'', ''--pool'', ''rbd'',
               ''--format'', ''json'', ''snap'', ''ls'', ''zombie_container_c1''] 1)),
       \<lparr>issued =
          [[''rbd'', ''--id'', ''admin'', ''--cluster'', ''ceph'', ''--pool'', ''rbd'',
            ''children'', ''--image'', ''zombie_container_c1'', ''--snap'', ''snapshot_snap0''],
           [''rbd'', ''--id'', ''admin'', ''--cluster'', ''ceph'', ''--pool'', ''rbd'',
            ''snap'', ''unprotect'', ''--snap'', ''snapshot_snap0'', ''zombie_container_c1''],
           [''rbd'', ''--id'', ''admin'', ''--cluster'', ''ceph'', ''--pool'', ''rbd'',
            ''unmap'', ''zombie_container_c1@snapshot_snap0''],
           [''rbd'', ''--id'', ''admin'', ''--cluster'', ''ceph'', ''--pool'', ''rbd'',
            ''snap'', ''rm'', ''zombie_container_c1@snapshot_snap0''],
           [''rbd'', ''--id'', ''admin'', ''--cluster'', ''ceph'', ''--pool'', ''rbd'',
            ''--format'', ''json'', ''snap'', ''ls'', ''zombie_container_c1'']],
        uuids = 0\<rparr>)"
  by code_simp

text \<open>
  Once the clone listing has succeeded, \<open>deleteVolumeSnapshot\<close> never returns 0: after the loop over the clones it either
  fails or falls through to the final \<open>return 1, nil\<close>, also when every clone was
  removed and the snapshot itself has been deleted.
\<close>

lemma deleteVolumeSnapshot_with_clones_not_Deleted:
  assumes ls: "rbdListSnapshotClones X d vol snapshotName w = (Inr clones, w1)"
    and res: "deleteVolumeSnapshot (Suc n) X d vol snapshotName w = Some ((ret, e), w')"
  shows "ret \<noteq> 0"
  using ls res
  by (auto simp: deleteVolumeSnapshot_Suc deleteVolumeSnapshot_body_def uuid_New_def
           split: option.splits sum.splits prod.splits if_splits)

text \<open>
  Claim C1 at a concrete input: on backend A the snapshot \<open>snapshot_snap0\<close> of the live
  volume \<open>container_c1\<close> has the one clone \<open>zombie_container_c2\<close>, whose
  \<open>deleteVolume\<close> returns 0. \<open>deleteVolumeSnapshot\<close> unprotects, unmaps and deletes the
  snapshot (the last three commands issued) and returns 1, the code for "marked as a
  zombie", where the claim and the function's own comment say 0.
\<close>

theorem deleteVolumeSnapshot_removable_clone_returns_1:
  "fst (rbdListSnapshotClones (ex_extern backend_A) ex_ceph ex_vol ''snapshot_snap0'' w0) =
     Inr [''rbd/zombie_container_c2''] \<and>
   parseClone ''rbd/zombie_container_c2'' = Inr (''rbd'', ''container'', ''c2'', True) \<and>
   map_option fst (deleteVolume 2 (ex_extern backend_A) ex_ceph ex_clone
     (snd (rbdListSnapshotClones (ex_extern backend_A) ex_ceph ex_vol ''snapshot_snap0'' w0))) =
     Some (0, None) \<and>
   deleteVolumeSnapshot 3 (ex_extern backend_A) ex_ceph ex_vol ''snapshot_snap0'' w0 =
     Some ((1, None),
       \<lparr>issued =
          [[''rbd'', ''--id'', ''admin'', ''--cluster'', ''ceph'', ''--pool'', ''rbd'',
            ''children'', ''--image'', ''container_c1'', ''--snap'', ''snapshot_snap0''],
           [''rbd'', ''--id'', ''admin'', ''--cluster'', ''ceph'', ''--pool'', ''rbd'',
            ''--format'', ''json'', ''snap'', ''ls'', ''zombie_container_c2''],
           [''rbd'', ''--id'', ''admin'', ''--cluster'', ''ceph'', ''--pool'', ''rbd'',
            ''info'', ''zombie_container_c2''],
           [''rbd'', ''--id'', ''admin'', ''--cluster'', ''ceph'', ''--pool'', ''rbd'',
            ''unmap'', ''zombie_container_c2''],
           [''rbd'', ''--id'', ''admin'', ''--cluster'', ''ceph'', ''--pool'', ''rbd'',
            ''rm'', ''zombie_container_c2''],
           [''rbd'', ''--id'', ''admin'', ''--cluster'', ''ceph'', ''--pool'', ''rbd'',
            ''snap'', ''unprotect'', ''--snap'', ''snapshot_snap0'', ''container_c1''],
           [''rbd'', ''--id'', ''admin'', ''--cluster'', ''ceph'', ''--pool'', ''rbd'',
            ''unmap'', ''container_c1@snapshot_snap0''],
           [''rbd'', ''--id'', ''admin'', ''--cluster'', ''ceph'', ''--pool'', ''rbd'',
            ''snap'', ''rm'', ''container_c1@snapshot_snap0'']],
        uuids = 0\<rparr>)"
  by code_simp


section \<open>The listing helpers\<close>

lemma rbdListVolumeSnapshots_nonempty:
  "rbdListVolumeSnapshots X d vol w = (Inr snaps, w') \<Longrightarrow> snaps \<noteq> []"
  by (auto simp: rbdListVolumeSnapshots_def RunCommand_def
           split: outcome.splits option.splits sum.splits if_splits)

lemma rbdListSnapshotClones_nonempty:
  "rbdListSnapshotClones X d vol sn w = (Inr clones, w') \<Longrightarrow> clones \<noteq> []"
  by (auto simp: rbdListSnapshotClones_def RunCommand_def Let_def
           split: outcome.splits if_splits)

lemma rbdListVolumeSnapshots_zero:
  "respond X (issued w) (snap_ls_cmd X d vol) = Stdout msg \<Longrightarrow> unmarshal X msg = Some [] \<Longrightarrow>
   fst (rbdListVolumeSnapshots X d vol w) =
     Inl (StatusError 404 ''Ceph RBD volume snapshot(s) not found'')"
  by (simp add: rbdListVolumeSnapshots_def RunCommand_def)

lemma rbdListSnapshotClones_zero:
  "respond X (issued w) (children_cmd X d vol sn) = Stdout msg \<Longrightarrow>
   Fields (TrimSpace msg) = [] \<Longrightarrow>
   fst (rbdListSnapshotClones X d vol sn w) =
     Inl (StatusError 404 ''Ceph RBD volume snapshot not found'')"
  by (simp add: rbdListSnapshotClones_def RunCommand_def)

text \<open>
  Claim C10. A listing that \<open>rbdListVolumeSnapshots\<close> or \<open>rbdListSnapshotClones\<close> returns
  without an error is never empty. When the backend's output decodes to no snapshot, or
  holds no clone name, the helper returns an error for which \<open>IsNotFoundError\<close> holds.
\<close>

theorem listings_never_empty:
  "(rbdListVolumeSnapshots X d vol w = (Inr snaps, w') \<longrightarrow> snaps \<noteq> []) \<and>
   (rbdListSnapshotClones X d vol sn w = (Inr clones, w'') \<longrightarrow> clones \<noteq> []) \<and>
   (respond X (issued w) (snap_ls_cmd X d vol) = Stdout msg \<longrightarrow> unmarshal X msg = Some [] \<longrightarrow>
      fst (rbdListVolumeSnapshots X d vol w) =
        Inl (StatusError 404 ''Ceph RBD volume snapshot(s) not found'') \<and>
      IsNotFoundError (StatusError 404 ''Ceph RBD volume snapshot(s) not found'')) \<and>
   (respond X (issued w) (children_cmd X d vol sn) = Stdout msg' \<longrightarrow>
    Fields (TrimSpace msg') = [] \<longrightarrow>
      fst (rbdListSnapshotClones X d vol sn w) =
        Inl (StatusError 404 ''Ceph RBD volume snapshot not found'') \<and>
      IsNotFoundError (StatusError 404 ''Ceph RBD volume snapshot not found''))"
  using rbdListVolumeSnapshots_nonempty [of X d vol w snaps w']
    rbdListSnapshotClones_nonempty [of X d vol sn w clones w'']
    rbdListVolumeSnapshots_zero [of X w d vol msg]
    rbdListSnapshotClones_zero [of X w d vol sn msg']
  by simp

theorem listings_never_empty_witness:
  "fst (rbdListVolumeSnapshots (ex_extern backend_E) ex_ceph ex_vol w0) =
     Inr [''snapshot_snap0''] \<and>
   fst (rbdListSnapshotClones (ex_extern backend_A) ex_ceph ex_vol ''snapshot_snap0'' w0) =
     Inr [''rbd/zombie_container_c2''] \<and>
   fst (rbdListVolumeSnapshots (ex_extern backend_A) ex_ceph ex_vol w0) =
     Inl (StatusError 404 ''Ceph RBD volume snapshot(s) not found'') \<and>
   fst (rbdListSnapshotClones (ex_extern backend_B) ex_ceph ex_vol ''snapshot_snap0'' w0) =
     Inl (StatusError 404 ''Ceph RBD volume snapshot not found'')"
proof -
  let ?A = "ex_extern backend_A" and ?B = "ex_extern backend_B" and ?E = "ex_extern backend_E"
  let ?s = "''snapshot_snap0''"
  have e1: "rbdListVolumeSnapshots ?E ex_ceph ex_vol w0 =
            (Inr [?s], snd (rbdListVolumeSnapshots ?E ex_ceph ex_vol w0))" by code_simp
  have e2: "rbdListSnapshotClones ?A ex_ceph ex_vol ?s w0 =
            (Inr [''rbd/zombie_container_c2''], snd (rbdListSnapshotClones ?A ex_ceph ex_vol ?s w0))"
    by code_simp
  have n1: "[?s] \<noteq> []" and n2: "[''rbd/zombie_container_c2''] \<noteq> []"
    using listings_never_empty [of ?E ex_ceph ex_vol w0 "[?s]" _ ?s] e1
      listings_never_empty [of ?A ex_ceph ex_vol w0 _ _ ?s "[''rbd/zombie_container_c2'']"] e2
    by blast+
  have h3: "respond ?A (issued w0) (snap_ls_cmd ?A ex_ceph ex_vol) = Stdout ''[]''"
    by code_simp
  have h4: "unmarshal ?A ''[]'' = Some []" by code_simp
  have h5: "respond ?B (issued w0) (children_cmd ?B ex_ceph ex_vol ?s) = Stdout []"
    by code_simp
  have h6: "Fields (TrimSpace []) = []" by code_simp
  have z1: "fst (rbdListVolumeSnapshots ?A ex_ceph ex_vol w0) =
            Inl (StatusError 404 ''Ceph RBD volume snapshot(s) not found'')"
    using listings_never_empty [of ?A ex_ceph ex_vol w0 _ _ ?s _ _ "''[]''"] h3 h4 by blast
  have z2: "fst (rbdListSnapshotClones ?B ex_ceph ex_vol ?s w0) =
            Inl (StatusError 404 ''Ceph RBD volume snapshot not found'')"
    using listings_never_empty [of ?B ex_ceph ex_vol w0 _ _ ?s _ _ _ "[]"] h5 h6 by blast
  have f1: "fst (rbdListVolumeSnapshots ?E ex_ceph ex_vol w0) = Inr [?s]"
    by (rule arg_cong [where f = fst, OF e1, unfolded fst_conv])
  have f2: "fst (rbdListSnapshotClones ?A ex_ceph ex_vol ?s w0) =
            Inr [''rbd/zombie_container_c2'']"
    by (rule arg_cong [where f = fst, OF e2, unfolded fst_conv])
  show ?thesis
    by (intro conjI f1 f2 z1 z2)
qed

section \<open>The device mapping resolver: which device is returned\<close>

lemma SplitN2_nonempty: "SplitN2 sep s \<noteq> []"
  by (simp add: SplitN2_def split: option.splits)

lemma target_snapshot_iff:
  "SplitN2 ''@'' (getRBDVolumeName X d vol '''' False) = p0 # ps \<Longrightarrow>
   (target_snapshot X d vol = Some b) = (ps = [b])"
  by (simp add: target_snapshot_def split: list.splits)

lemma target_image_eq:
  "SplitN2 ''@'' (getRBDVolumeName X d vol '''' False) = p0 # ps \<Longrightarrow>
   target_image X d vol = Some p0"
  by (simp add: target_image_def)

lemma TrimSpace_Nil: "TrimSpace [] = []"
  by (simp add: TrimSpace_def)

lemma scan_skip:
  assumes "readable X f" and "\<not> device_matches X d vol f"
  shows "scan_devices X d vol (f # files) = scan_devices X d vol files"
proof (cases f)
  case (Pair fName isDir)
  obtain p0 ps where sp: "SplitN2 ''@'' (getRBDVolumeName X d vol '''' False) = p0 # ps"
    using SplitN2_nonempty by (cases "SplitN2 ''@'' (getRBDVolumeName X d vol '''' False)") auto
  show ?thesis
    using assms sp unfolding Pair
    by (auto simp: readable_def device_matches_def attribute_def absent_def
                   target_image_def target_snapshot_def TrimSpace_Nil
             split: option.splits sum.splits list.splits if_splits)
qed

lemma scan_hit:
  assumes "device_matches X d vol f"
  shows "scan_devices X d vol (f # files) = Some (Inr (dev_path f))"
proof (cases f)
  case (Pair fName isDir)
  obtain p0 ps where sp: "SplitN2 ''@'' (getRBDVolumeName X d vol '''' False) = p0 # ps"
    using SplitN2_nonempty by (cases "SplitN2 ''@'' (getRBDVolumeName X d vol '''' False)") auto
  show ?thesis
    using assms sp unfolding Pair
    by (auto simp: device_matches_def attribute_def absent_def dev_path_def
                   target_image_def target_snapshot_def TrimSpace_Nil
             split: option.splits sum.splits list.splits if_splits)
qed

lemma scan_no_match:
  "list_all (readable X) files \<Longrightarrow> list_all (\<lambda>f. \<not> device_matches X d vol f) files \<Longrightarrow>
   scan_devices X d vol files = None"
proof (induction files)
  case Nil
  then show ?case by simp
next
  case (Cons f files)
  then have "scan_devices X d vol (f # files) = scan_devices X d vol files"
    by (intro scan_skip) simp_all
  with Cons show ?case by simp
qed

lemma scan_first:
  "list_all (readable X) pre \<Longrightarrow> list_all (\<lambda>f. \<not> device_matches X d vol f) pre \<Longrightarrow>
   device_matches X d vol f \<Longrightarrow>
   scan_devices X d vol (pre @ f # post) = Some (Inr (dev_path f))"
proof (induction pre)
  case Nil
  then show ?case by (simp only: append_Nil scan_hit)
next
  case (Cons g pre)
  then have "scan_devices X d vol (g # pre @ f # post) = scan_devices X d vol (pre @ f # post)"
    by (intro scan_skip) simp_all
  with Cons show ?case by simp
qed

lemma scan_found_later:
  assumes "\<not> device_matches X d vol f"
    and "scan_devices X d vol (f # files) = Some (Inr path)"
  shows "scan_devices X d vol files = Some (Inr path)"
proof (cases f)
  case (Pair fName isDir)
  obtain p0 ps where sp: "SplitN2 ''@'' (getRBDVolumeName X d vol '''' False) = p0 # ps"
    using SplitN2_nonempty by (cases "SplitN2 ''@'' (getRBDVolumeName X d vol '''' False)") auto
  show ?thesis
    using assms sp unfolding Pair
    by (auto simp: device_matches_def attribute_def absent_def
                   target_image_def target_snapshot_def TrimSpace_Nil
             split: option.splits sum.splits list.splits if_splits)
qed

lemma scan_sound:
  "scan_devices X d vol files = Some (Inr path) \<Longrightarrow>
   \<exists>pre f post. files = pre @ f # post \<and> device_matches X d vol f \<and> path = dev_path f \<and>
                 list_all (\<lambda>g. \<not> device_matches X d vol g) pre"
proof (induction files)
  case Nil
  then show ?case by simp
next
  case (Cons g files)
  show ?case
  proof (cases "device_matches X d vol g")
    case True
    with Cons.prems have "path = dev_path g" by (simp only: scan_hit) simp
    with True have "g # files = [] @ g # files \<and> device_matches X d vol g \<and> path = dev_path g \<and>
                    list_all (\<lambda>g. \<not> device_matches X d vol g) []" by simp
    then show ?thesis by blast
  next
    case False
    from scan_found_later [OF False Cons.prems] Cons.IH obtain pre f post where
      "files = pre @ f # post" "device_matches X d vol f" "path = dev_path f"
      "list_all (\<lambda>g. \<not> device_matches X d vol g) pre" by blast
    with False have "g # files = (g # pre) @ f # post \<and> device_matches X d vol f \<and>
                     path = dev_path f \<and> list_all (\<lambda>g. \<not> device_matches X d vol g) (g # pre)"
      by simp
    then show ?thesis by blast
  qed
qed

text \<open>
  Claim C9. The registry lists the entries \<open>files\<close> (none when it does not exist). A result with
  \<open>wasNewlyMapped = false\<close> is the path of an entry that matches the target in pool, image
  name and snapshot identity, no entry before it matches, and no command has been issued.
  When the entries before the first matching one are readable, that first matching device
  is returned, whatever \<open>mapIfMissing\<close> is. When every entry is readable and none matches,
  the call without \<open>mapIfMissing\<close> fails with the not-mapped error and issues no command.
\<close>

theorem getRBDMappedDevPath_resolve:
  assumes dir: "list_devices X = Inr files"
  shows "(getRBDMappedDevPath X d vol mapIfMissing w = (Inr (False, path), w') \<longrightarrow>
            w' = w \<and>
            (\<exists>pre f post. files = pre @ f # post \<and> device_matches X d vol f \<and>
               path = dev_path f \<and> list_all (\<lambda>g. \<not> device_matches X d vol g) pre)) \<and>
         (files = pre' @ f' # post' \<longrightarrow> list_all (readable X) pre' \<longrightarrow>
          list_all (\<lambda>g. \<not> device_matches X d vol g) pre' \<longrightarrow> device_matches X d vol f' \<longrightarrow>
            getRBDMappedDevPath X d vol mapIfMissing w = (Inr (False, dev_path f'), w)) \<and>
         (list_all (readable X) files \<longrightarrow> list_all (\<lambda>g. \<not> device_matches X d vol g) files \<longrightarrow>
            getRBDMappedDevPath X d vol False w = (Inl (NotMapped (name vol)), w))"
proof (intro conjI impI)
  assume res: "getRBDMappedDevPath X d vol mapIfMissing w = (Inr (False, path), w')"
  then have "scan_devices X d vol files = Some (Inr path) \<and> w' = w"
    using dir
    by (auto simp: getRBDMappedDevPath_def split: option.splits sum.splits prod.splits if_splits)
  then show "w' = w"
    and "\<exists>pre f post. files = pre @ f # post \<and> device_matches X d vol f \<and>
           path = dev_path f \<and> list_all (\<lambda>g. \<not> device_matches X d vol g) pre"
    using scan_sound [of X d vol files path] by simp_all
next
  assume "files = pre' @ f' # post'" "list_all (readable X) pre'"
    "list_all (\<lambda>g. \<not> device_matches X d vol g) pre'" "device_matches X d vol f'"
  then have "scan_devices X d vol files = Some (Inr (dev_path f'))"
    using scan_first [of X pre' d vol f' post'] by simp
  then show "getRBDMappedDevPath X d vol mapIfMissing w = (Inr (False, dev_path f'), w)"
    using dir by (simp add: getRBDMappedDevPath_def)
next
  assume "list_all (readable X) files" "list_all (\<lambda>g. \<not> device_matches X d vol g) files"
  then have "scan_devices X d vol files = None"
    by (rule scan_no_match)
  then show "getRBDMappedDevPath X d vol False w = (Inl (NotMapped (name vol)), w)"
    using dir by (simp add: getRBDMappedDevPath_def)
qed

theorem getRBDMappedDevPath_resolve_witness:
  "getRBDMappedDevPath ex_sysfs ex_ceph ex_vol False w0 = (Inr (False, ''/dev/rbd2''), w0) \<and>
   getRBDMappedDevPath ex_sysfs ex_ceph ex_snapshot_vol True w0 =
     (Inr (False, ''/dev/rbd1''), w0) \<and>
   getRBDMappedDevPath ex_sysfs ex_ceph ex_unmapped_vol False w0 =
     (Inl (NotMapped ''c5''), w0)"
proof -
  let ?files = "[(''uevent'', False), (''0'', True), (''1'', True), (''2'', True)]"
  have dir: "list_devices ex_sysfs = Inr ?files" by code_simp
  \<comment> \<open>the live volume: device 1 has its pool and image name but is a snapshot\<close>
  have a1: "?files = [(''uevent'', False), (''0'', True), (''1'', True)] @ (''2'', True) # []"
    by simp
  have a2: "list_all (readable ex_sysfs) [(''uevent'', False), (''0'', True), (''1'', True)]"
    by code_simp
  have a3: "list_all (\<lambda>g. \<not> device_matches ex_sysfs ex_ceph ex_vol g)
              [(''uevent'', False), (''0'', True), (''1'', True)]" by code_simp
  have a4: "device_matches ex_sysfs ex_ceph ex_vol (''2'', True)" by code_simp
  have a5: "dev_path (''2'', True) = ''/dev/rbd2''" by code_simp
  have A: "getRBDMappedDevPath ex_sysfs ex_ceph ex_vol False w0 =
           (Inr (False, dev_path (''2'', True)), w0)"
    by (rule getRBDMappedDevPath_resolve [OF dir, THEN conjunct2, THEN conjunct1, rule_format,
          OF a1 a2 a3 a4])
  \<comment> \<open>the snapshot volume\<close>
  have b1: "?files = [(''uevent'', False), (''0'', True)] @ (''1'', True) # [(''2'', True)]"
    by simp
  have b2: "list_all (readable ex_sysfs) [(''uevent'', False), (''0'', True)]" by code_simp
  have b3: "list_all (\<lambda>g. \<not> device_matches ex_sysfs ex_ceph ex_snapshot_vol g)
              [(''uevent'', False), (''0'', True)]" by code_simp
  have b4: "device_matches ex_sysfs ex_ceph ex_snapshot_vol (''1'', True)" by code_simp
  have b5: "dev_path (''1'', True) = ''/dev/rbd1''" by code_simp
  have B: "getRBDMappedDevPath ex_sysfs ex_ceph ex_snapshot_vol True w0 =
           (Inr (False, dev_path (''1'', True)), w0)"
    by (rule getRBDMappedDevPath_resolve [OF dir, THEN conjunct2, THEN conjunct1, rule_format,
          OF b1 b2 b3 b4])
  \<comment> \<open>a volume that no device maps\<close>
  have c2: "list_all (readable ex_sysfs) ?files" by code_simp
  have c3: "list_all (\<lambda>g. \<not> device_matches ex_sysfs ex_ceph ex_unmapped_vol g) ?files"
    by code_simp
  have c5: "name ex_unmapped_vol = ''c5''" by code_simp
  have C: "getRBDMappedDevPath ex_sysfs ex_ceph ex_unmapped_vol False w0 =
           (Inl (NotMapped (name ex_unmapped_vol)), w0)"
    by (rule getRBDMappedDevPath_resolve [OF dir, THEN conjunct2, THEN conjunct2, rule_format,
          OF c2 c3])
  show ?thesis
    using A B C unfolding a5 b5 c5 by (intro conjI)
qed

section \<open>Receiving a volume: which errors are reported\<close>

lemma copy_task_done: "copy_pc s = 2 \<Longrightarrow> copy_task_steps k r s = s"
  by (induction k) (simp_all add: copy_task_step_def)

lemma copy_task_first:
  "copy_pc s = 0 \<Longrightarrow>
   copy_task_steps (Suc 0) r s = s\<lparr>shared_err := copyErr r, copy_pc := 1\<rparr>"
  by (simp add: copy_task_step_def)

lemma copy_task_second:
  "copy_pc s = 1 \<Longrightarrow>
   copy_task_steps (Suc k) r s = s\<lparr>channel := Some (shared_err s), copy_pc := 2\<rparr>"
  by (simp add: copy_task_step_def copy_task_done)

lemma copy_task_both:
  "copy_pc s = 0 \<Longrightarrow>
   copy_task_steps (Suc (Suc k)) r s =
     s\<lparr>shared_err := copyErr r, channel := Some (copyErr r), copy_pc := 2\<rparr>"
  by (simp add: copy_task_step_def copy_task_done)

lemma copy_task_assigned:
  "copy_pc s \<noteq> 0 \<Longrightarrow> shared_err (copy_task_steps k r s) = shared_err s"
proof (induction k arbitrary: s)
  case 0
  then show ?case by simp
next
  case (Suc k)
  have "copy_pc (copy_task_step r s) \<noteq> 0"
    using Suc.prems by (simp add: copy_task_step_def)
  from Suc.IH [OF this] show ?case
    using Suc.prems by (simp add: copy_task_step_def)
qed

lemma copy_task_assigns:
  "copy_pc s = 0 \<Longrightarrow> shared_err (copy_task_steps (Suc k) r s) = copyErr r"
  by (simp add: copy_task_assigned copy_task_step_def)

lemma three_cases:
  obtains "k = 0" | "k = Suc 0" | a where "k = Suc (Suc a)"
proof (cases k)
  case 0
  then show ?thesis using that by simp
next
  case (Suc m)
  then show ?thesis using that by (cases m) simp_all
qed

lemma receiveVolume_shared:
  fixes r :: receive_run
  defines "s3 \<equiv> copy_task_steps (copy_before_test r) r
             ((copy_task_steps (copy_before_start r) r
                 \<lparr>shared_err = None, channel = None, copy_pc = 0\<rparr>)
              \<lparr>shared_err := startErr r\<rparr>)"
  shows "shared_err s3 = tested_value r"
    and "channel (copy_task_steps 2 r s3) = Some (channel_value r)"
    and "shared_err (copy_task_steps (copy_before_return r) r s3) = return_value r"
proof -
  let ?s0 = "\<lparr>shared_err = None, channel = None, copy_pc = 0\<rparr>"
  have "shared_err s3 = tested_value r \<and>
        channel (copy_task_steps (Suc (Suc 0)) r s3) = Some (channel_value r) \<and>
        shared_err (copy_task_steps (copy_before_return r) r s3) = return_value r"
  proof (cases "copy_before_start r" rule: three_cases)
    case 1
    note a = 1
    show ?thesis
    proof (cases "copy_before_test r" rule: three_cases)
      case 1
      note b = 1
      show ?thesis
      proof (cases "copy_before_return r")
        case 0
        with a b show ?thesis
          by (simp add: s3_def tested_value_def return_value_def channel_value_def
                copy_task_both del: copy_task_steps.simps(2))
      next
        case (Suc c)
        with a b show ?thesis
          by (simp add: s3_def tested_value_def return_value_def channel_value_def
                copy_task_both copy_task_assigns del: copy_task_steps.simps(2))
      qed
    next
      case 2
      with a show ?thesis
        by (simp add: s3_def tested_value_def return_value_def channel_value_def
              copy_task_first copy_task_second copy_task_assigned
              del: copy_task_steps.simps(2))
    next
      case (3 b)
      with a show ?thesis
        by (simp add: s3_def tested_value_def return_value_def channel_value_def
              copy_task_both copy_task_done del: copy_task_steps.simps(2))
    qed
  next
    case 2
    note a = 2
    show ?thesis
    proof (cases "copy_before_test r")
      case 0
      with a show ?thesis
        by (simp add: s3_def tested_value_def return_value_def channel_value_def
              copy_task_first copy_task_second copy_task_assigned
              del: copy_task_steps.simps(2))
    next
      case (Suc b)
      with a show ?thesis
        by (simp add: s3_def tested_value_def return_value_def channel_value_def
              copy_task_first copy_task_second copy_task_done del: copy_task_steps.simps(2))
    qed
  next
    case (3 a)
    then show ?thesis
      by (simp add: s3_def tested_value_def return_value_def channel_value_def
            copy_task_both copy_task_done del: copy_task_steps.simps(2))
  qed
  then show "shared_err s3 = tested_value r"
    and "channel (copy_task_steps 2 r s3) = Some (channel_value r)"
    and "shared_err (copy_task_steps (copy_before_return r) r s3) = return_value r"
    by (simp_all add: numeral_2_eq_2)
qed

lemma receiveVolume_result:
  assumes "stdinPipeErr r = None" and "stderrPipeErr r = None"
  shows "receiveVolume r =
         (case tested_value r of
            Some e \<Rightarrow> \<lparr>returned = return_value r, calls = [CmdStart]\<rparr>
          | None \<Rightarrow>
              \<lparr>returned =
                 (case waitErr r of
                    None \<Rightarrow> None
                  | Some e \<Rightarrow>
                      Some (ImportDiffProblem
                              (e # (case channel_value r of None \<Rightarrow> [] | Some c \<Rightarrow> [c]))
                              (stderrOutput r))),
               calls = [CmdStart, ChannelReceive, CmdWait]\<rparr>)"
proof -
  show ?thesis
    unfolding receiveVolume_def Let_def assms option.case
      receiveVolume_shared(1) receiveVolume_shared(2) receiveVolume_shared(3)
    by (cases "tested_value r"; cases "waitErr r"; cases "channel_value r") simp_all
qed

text \<open>
  Claim C3, as amended. In a run in which both pipes are created, the main task tests the
  variable \<open>err\<close> after \<open>cmd.Start\<close>. When it reads no error, the main task receives from
  the channel and calls \<open>cmd.Wait\<close> before it returns; it returns no error exactly when
  \<open>cmd.Wait\<close> reports none, and when \<open>cmd.Wait\<close> reports an error, the error returned
  joins it with the error received from the channel, if any, and carries the text read
  from stderr. When the test reads an error, the main task returns at once what \<open>err\<close>
  holds, and neither the channel nor the process's exit status is collected. When the
  copy task takes both its steps after the main task has tested \<open>err\<close> (and, where the
  test fails, after the main task has returned), the value tested and returned is the
  result of \<open>cmd.Start\<close> and the value received is the result of \<open>io.Copy\<close>; then, with the
  process started, the call fails exactly when \<open>cmd.Wait\<close> reports an error: the error
  of the copy task alone does not make the call fail.
\<close>

theorem receiveVolume_errors:
  assumes "stdinPipeErr r = None" and "stderrPipeErr r = None"
  shows "(tested_value r = None \<longrightarrow>
            calls (receiveVolume r) = [CmdStart, ChannelReceive, CmdWait] \<and>
            (returned (receiveVolume r) = None) = (waitErr r = None) \<and>
            (waitErr r = Some e \<longrightarrow>
               returned (receiveVolume r) =
                 Some (ImportDiffProblem
                         (e # (case channel_value r of None \<Rightarrow> [] | Some c \<Rightarrow> [c]))
                         (stderrOutput r)))) \<and>
         (tested_value r = Some e' \<longrightarrow>
            receiveVolume r = \<lparr>returned = return_value r, calls = [CmdStart]\<rparr>) \<and>
         (copy_before_start r = 0 \<longrightarrow> copy_before_test r = 0 \<longrightarrow>
            (startErr r = None \<longrightarrow>
               calls (receiveVolume r) = [CmdStart, ChannelReceive, CmdWait] \<and>
               (returned (receiveVolume r) = None) = (waitErr r = None) \<and>
               (waitErr r = Some e \<longrightarrow>
                  returned (receiveVolume r) =
                    Some (ImportDiffProblem
                            (e # (case copyErr r of None \<Rightarrow> [] | Some c \<Rightarrow> [c]))
                            (stderrOutput r)))) \<and>
            (startErr r = Some e' \<longrightarrow> copy_before_return r = 0 \<longrightarrow>
               receiveVolume r = \<lparr>returned = Some e', calls = [CmdStart]\<rparr>))"
proof -
  note res = receiveVolume_result [OF assms]
  have 1: "tested_value r = None \<longrightarrow>
            calls (receiveVolume r) = [CmdStart, ChannelReceive, CmdWait] \<and>
            (returned (receiveVolume r) = None) = (waitErr r = None) \<and>
            (waitErr r = Some e \<longrightarrow>
               returned (receiveVolume r) =
                 Some (ImportDiffProblem
                         (e # (case channel_value r of None \<Rightarrow> [] | Some c \<Rightarrow> [c]))
                         (stderrOutput r)))"
    using res by (simp split: option.splits)
  have 2: "tested_value r = Some e' \<longrightarrow>
           receiveVolume r = \<lparr>returned = return_value r, calls = [CmdStart]\<rparr>"
    using res by simp
  have 3: "copy_before_start r = 0 \<longrightarrow> copy_before_test r = 0 \<longrightarrow>
            (startErr r = None \<longrightarrow>
               calls (receiveVolume r) = [CmdStart, ChannelReceive, CmdWait] \<and>
               (returned (receiveVolume r) = None) = (waitErr r = None) \<and>
               (waitErr r = Some e \<longrightarrow>
                  returned (receiveVolume r) =
                    Some (ImportDiffProblem
                            (e # (case copyErr r of None \<Rightarrow> [] | Some c \<Rightarrow> [c]))
                            (stderrOutput r)))) \<and>
            (startErr r = Some e' \<longrightarrow> copy_before_return r = 0 \<longrightarrow>
               receiveVolume r = \<lparr>returned = Some e', calls = [CmdStart]\<rparr>)"
    using res
    by (simp add: tested_value_def return_value_def channel_value_def split: option.splits)
  from 1 2 3 show ?thesis by (intro conjI)
qed

theorem receiveVolume_errors_witness:
  "receiveVolume (ex_run 0 0 None None) =
     \<lparr>returned = None, calls = [CmdStart, ChannelReceive, CmdWait]\<rparr> \<and>
   receiveVolume (ex_run 0 0 (Some (FsError ''broken pipe'')) (Some (ExitError [''rbd''] 1))) =
     \<lparr>returned = Some (ImportDiffProblem [ExitError [''rbd''] 1, FsError ''broken pipe'']
                        ''rbd: import-diff failed''),
      calls = [CmdStart, ChannelReceive, CmdWait]\<rparr> \<and>
   receiveVolume (ex_run 0 1 (Some (FsError ''broken pipe'')) (Some (ExitError [''rbd''] 1))) =
     \<lparr>returned = Some (FsError ''broken pipe''), calls = [CmdStart]\<rparr> \<and>
   receiveVolume (ex_run 1 0 (Some (FsError ''broken pipe'')) (Some (ExitError [''rbd''] 1))) =
     \<lparr>returned = Some (ImportDiffProblem [ExitError [''rbd''] 1] ''rbd: import-diff failed''),
      calls = [CmdStart, ChannelReceive, CmdWait]\<rparr> \<and>
   receiveVolume (ex_failed_start 0) =
     \<lparr>returned = Some (RunFailure [''rbd'', ''import-diff'']), calls = [CmdStart]\<rparr> \<and>
   receiveVolume (ex_failed_start 1) = \<lparr>returned = None, calls = [CmdStart]\<rparr>"
proof -
  let ?x = "ExitError [''rbd''] 1" and ?c = "FsError ''broken pipe''"
  let ?s = "RunFailure [''rbd'', ''import-diff'']"
  let ?a = "ex_run 0 0 None None"
  let ?b = "ex_run 0 0 (Some ?c) (Some ?x)"
  let ?d = "ex_run 0 1 (Some ?c) (Some ?x)"
  let ?f = "ex_run 1 0 (Some ?c) (Some ?x)"
  let ?g = "ex_failed_start 0"
  let ?h = "ex_failed_start 1"
  have eq: "\<And>z e cs. calls z = cs \<Longrightarrow> returned z = e \<Longrightarrow> z = \<lparr>returned = e, calls = cs\<rparr>"
    by auto
  have a: "stdinPipeErr ?a = None" "stderrPipeErr ?a = None" "tested_value ?a = None"
    "waitErr ?a = None"
    by (simp_all add: ex_run_def tested_value_def)
  note a' = receiveVolume_errors [OF a(1,2), THEN conjunct1, rule_format, OF a(3)]
  have A: "receiveVolume ?a = \<lparr>returned = None, calls = [CmdStart, ChannelReceive, CmdWait]\<rparr>"
    by (rule eq [OF a' [THEN conjunct1]])
       (rule a' [THEN conjunct2, THEN conjunct1, THEN iffD2, OF a(4)])
  have b: "stdinPipeErr ?b = None" "stderrPipeErr ?b = None" "copy_before_start ?b = 0"
    "copy_before_test ?b = 0" "startErr ?b = None" "waitErr ?b = Some ?x"
    by (simp_all add: ex_run_def)
  have b6: "?x # (case copyErr ?b of None \<Rightarrow> [] | Some c \<Rightarrow> [c]) = [?x, ?c]"
    "stderrOutput ?b = ''rbd: import-diff failed''"
    by (simp_all add: ex_run_def)
  note b' = receiveVolume_errors [OF b(1,2), THEN conjunct2, THEN conjunct2, rule_format,
              OF b(3,4), THEN conjunct1, rule_format, OF b(5)]
  have B: "receiveVolume ?b =
             \<lparr>returned = Some (ImportDiffProblem [?x, ?c] ''rbd: import-diff failed''),
              calls = [CmdStart, ChannelReceive, CmdWait]\<rparr>"
    by (rule eq [OF b' [THEN conjunct1]])
       (rule b' [THEN conjunct2, THEN conjunct2, rule_format, OF b(6), unfolded b6])
  have d: "stdinPipeErr ?d = None" "stderrPipeErr ?d = None" "tested_value ?d = Some ?c"
    "return_value ?d = Some ?c"
    by (simp_all add: ex_run_def tested_value_def return_value_def)
  have D: "receiveVolume ?d = \<lparr>returned = Some ?c, calls = [CmdStart]\<rparr>"
    by (rule receiveVolume_errors [OF d(1,2), THEN conjunct2, THEN conjunct1, rule_format,
          OF d(3), unfolded d(4)])
  have f: "stdinPipeErr ?f = None" "stderrPipeErr ?f = None" "tested_value ?f = None"
    "waitErr ?f = Some ?x"
    by (simp_all add: ex_run_def tested_value_def)
  have f6: "?x # (case channel_value ?f of None \<Rightarrow> [] | Some c \<Rightarrow> [c]) = [?x]"
    "stderrOutput ?f = ''rbd: import-diff failed''"
    by (simp_all add: ex_run_def channel_value_def)
  note f' = receiveVolume_errors [OF f(1,2), THEN conjunct1, rule_format, OF f(3)]
  have F: "receiveVolume ?f =
             \<lparr>returned = Some (ImportDiffProblem [?x] ''rbd: import-diff failed''),
              calls = [CmdStart, ChannelReceive, CmdWait]\<rparr>"
    by (rule eq [OF f' [THEN conjunct1]])
       (rule f' [THEN conjunct2, THEN conjunct2, rule_format, OF f(4), unfolded f6])
  have g: "stdinPipeErr ?g = None" "stderrPipeErr ?g = None" "copy_before_start ?g = 0"
    "copy_before_test ?g = 0" "startErr ?g = Some ?s" "copy_before_return ?g = 0"
    by (simp_all add: ex_failed_start_def)
  have G: "receiveVolume ?g = \<lparr>returned = Some ?s, calls = [CmdStart]\<rparr>"
    by (rule receiveVolume_errors [OF g(1,2), THEN conjunct2, THEN conjunct2, rule_format,
          OF g(3,4), THEN conjunct2, rule_format, OF g(5,6)])
  have h: "stdinPipeErr ?h = None" "stderrPipeErr ?h = None" "tested_value ?h = Some ?s"
    "return_value ?h = None"
    by (simp_all add: ex_failed_start_def tested_value_def return_value_def)
  have H: "receiveVolume ?h = \<lparr>returned = None, calls = [CmdStart]\<rparr>"
    by (rule receiveVolume_errors [OF h(1,2), THEN conjunct2, THEN conjunct1, rule_format,
          OF h(3), unfolded h(4)])
  show ?thesis by (intro conjI A B D F G H)
qed

text \<open>
  Claim C3 as stated fails: when the copy task fails and the process exits cleanly,
  \<open>receiveVolume\<close> returns no error, although the copy task has taken both its steps
  after the main task's test and its error has been received from the channel.
\<close>

theorem receiveVolume_copy_failure_counterexample:
  "copyErr (ex_run 0 0 (Some (FsError ''connection reset'')) None) =
     Some (FsError ''connection reset'') \<and>
   channel_value (ex_run 0 0 (Some (FsError ''connection reset'')) None) =
     Some (FsError ''connection reset'') \<and>
   receiveVolume (ex_run 0 0 (Some (FsError ''connection reset'')) None) =
     \<lparr>returned = None, calls = [CmdStart, ChannelReceive, CmdWait]\<rparr>"
  by code_simp

end
